theory Spec2Isabelle
  imports Complex_Main "HOL-Library.Word"
begin

section \<open>JavaScript numbers\<close>

text \<open>
  The provider in \<^verbatim>\<open>src/providers/sei-oracle.ts\<close> computes with JavaScript numbers. A number
  is modelled as NaN, one of the two infinities, or a finite value. Finite values are kept
  exact (the rounding of the mantissa is not modelled), but a result that leaves the range
  of a binary64 float becomes an infinity or zero, as it does in JavaScript. The two zeros
  are identified: the source never divides by a computed zero and never inspects the sign
  of a zero.
\<close>

datatype jsnum = NaN | PInf | NInf | Fin real

definition js_of_real :: "real \<Rightarrow> jsnum" where
  "js_of_real x =
     (if 2 ^ 1024 - 2 ^ 970 \<le> x then PInf
      else if x \<le> - (2 ^ 1024 - 2 ^ 970) then NInf
      else if \<bar>x\<bar> \<le> 1 / 2 ^ 1075 then Fin 0
      else Fin x)"

text \<open>\<^verbatim>\<open>Number(b)\<close> for a bigint \<open>b\<close>, and \<^verbatim>\<open>Date.now()\<close> for a clock reading in milliseconds.\<close>

definition js_Number :: "int \<Rightarrow> jsnum" where
  "js_Number i = js_of_real (of_int i)"

definition Date_now :: "int \<Rightarrow> jsnum" where
  "Date_now ms = Fin (of_int ms)"

text \<open>\<^verbatim>\<open>Math.pow(10, e)\<close> for an integer exponent.\<close>

definition js_pow10 :: "int \<Rightarrow> jsnum" where
  "js_pow10 e = js_of_real (10 powi e)"

fun js_isNaN :: "jsnum \<Rightarrow> bool" where
  "js_isNaN NaN = True"
| "js_isNaN PInf = False"
| "js_isNaN NInf = False"
| "js_isNaN (Fin x) = False"

text \<open>Truthiness of a number: \<^verbatim>\<open>!x\<close> holds for NaN and zero only.\<close>

fun js_truthy :: "jsnum \<Rightarrow> bool" where
  "js_truthy NaN = False"
| "js_truthy PInf = True"
| "js_truthy NInf = True"
| "js_truthy (Fin x) = (x \<noteq> 0)"

text \<open>The comparison \<^verbatim>\<open>a < b\<close>: false as soon as one side is NaN.\<close>

fun js_lt :: "jsnum \<Rightarrow> jsnum \<Rightarrow> bool" where
  "js_lt (Fin a) (Fin b) = (a < b)"
| "js_lt (Fin a) PInf = True"
| "js_lt NInf (Fin b) = True"
| "js_lt NInf PInf = True"
| "js_lt NaN b = False"
| "js_lt a NaN = False"
| "js_lt PInf b = False"
| "js_lt a NInf = False"

definition js_gt :: "jsnum \<Rightarrow> jsnum \<Rightarrow> bool" where
  "js_gt a b = js_lt b a"

definition js_le :: "jsnum \<Rightarrow> jsnum \<Rightarrow> bool" where
  "js_le a b = (\<not> js_isNaN a \<and> \<not> js_isNaN b \<and> (a = b \<or> js_lt a b))"

fun js_sub :: "jsnum \<Rightarrow> jsnum \<Rightarrow> jsnum" where
  "js_sub (Fin a) (Fin b) = js_of_real (a - b)"
| "js_sub NaN b = NaN"
| "js_sub a NaN = NaN"
| "js_sub PInf PInf = NaN"
| "js_sub NInf NInf = NaN"
| "js_sub PInf b = PInf"
| "js_sub NInf b = NInf"
| "js_sub (Fin a) PInf = NInf"
| "js_sub (Fin a) NInf = PInf"

text \<open>The sign of a number that is not NaN, used for products and quotients with an infinity.\<close>

fun js_sign :: "jsnum \<Rightarrow> real" where
  "js_sign NaN = 0"
| "js_sign PInf = 1"
| "js_sign NInf = - 1"
| "js_sign (Fin x) = sgn x"

definition js_signed_inf :: "real \<Rightarrow> jsnum" where
  "js_signed_inf s = (if s = 0 then NaN else if 0 < s then PInf else NInf)"

fun js_mul :: "jsnum \<Rightarrow> jsnum \<Rightarrow> jsnum" where
  "js_mul (Fin a) (Fin b) = js_of_real (a * b)"
| "js_mul NaN b = NaN"
| "js_mul a NaN = NaN"
| "js_mul a b = js_signed_inf (js_sign a * js_sign b)"

text \<open>
  Division. A finite number over an infinity is zero, an infinity over an infinity is NaN;
  a zero divisor is taken as the positive zero.
\<close>

fun js_div :: "jsnum \<Rightarrow> jsnum \<Rightarrow> jsnum" where
  "js_div (Fin a) (Fin b) = (if b = 0 then js_signed_inf (sgn a) else js_of_real (a / b))"
| "js_div NaN b = NaN"
| "js_div a NaN = NaN"
| "js_div (Fin a) b = Fin 0"
| "js_div a (Fin b) = js_signed_inf (js_sign a * (if b < 0 then - 1 else 1))"
| "js_div a b = NaN"

section \<open>Strings\<close>

text \<open>
  \<^verbatim>\<open>String.prototype.toUpperCase\<close> on the ASCII letters; every other character is left
  as it is. The tickers the provider knows are ASCII.
\<close>

definition toUpperCase_char :: "char \<Rightarrow> char" where
  "toUpperCase_char c =
     (case map_of (zip ''abcdefghijklmnopqrstuvwxyz'' ''ABCDEFGHIJKLMNOPQRSTUVWXYZ'') c of
        Some u \<Rightarrow> u
      | None \<Rightarrow> c)"

definition toUpperCase :: "string \<Rightarrow> string" where
  "toUpperCase s = map toUpperCase_char s"

section \<open>Data model\<close>

record PriceFeed =
  symbol :: string
  price :: jsnum
  timestamp :: jsnum
  source :: string
  confidence :: jsnum

record FundingRate =
  fr_symbol :: string
  rate :: jsnum
  fr_timestamp :: jsnum
  exchange :: string
  nextFundingTime :: jsnum

text \<open>
  The per-token oracle addresses of \<^verbatim>\<open>YeiMultiOracleAddresses\<close>; every field is optional
  in the interface, and the constructor leaves \<^verbatim>\<open>BTC\<close> undefined when the setting
  \<^verbatim>\<open>YEI_BTC_ORACLE\<close> is absent.
\<close>

record YeiMultiOracleAddresses =
  addr_SEI :: "string option"
  addr_USDC :: "string option"
  addr_USDT :: "string option"
  addr_ETH :: "string option"
  addr_BTC :: "string option"

text \<open>
  The property read \<^verbatim>\<open>this.yeiMultiOracleAddresses[key]\<close> followed by the test
  \<^verbatim>\<open>!oracleAddress\<close>: an undefined field and the empty string are both falsy.
\<close>

definition oracle_address :: "YeiMultiOracleAddresses \<Rightarrow> string \<Rightarrow> string option" where
  "oracle_address a key =
     (let field =
        (if key = ''SEI'' then addr_SEI a
         else if key = ''USDC'' then addr_USDC a
         else if key = ''USDT'' then addr_USDT a
         else if key = ''ETH'' then addr_ETH a
         else if key = ''BTC'' then addr_BTC a
         else None)
      in case field of None \<Rightarrow> None | Some s \<Rightarrow> (if s = [] then None else Some s))"

text \<open>
  What the outside world answers. A contract read (\<^verbatim>\<open>publicClient.readContract\<close>) throws or
  returns the decoded outputs. An HTTP request throws in \<^verbatim>\<open>fetch\<close>, answers with a status
  that is not ok, answers with a body that \<^verbatim>\<open>response.json()\<close> cannot parse, or delivers a
  JSON value.
\<close>

datatype 'a rpc = Reverted | Returned 'a

datatype 'a fetched = Fetch_failed | Not_ok | Bad_json | Json 'a

text \<open>The errors thrown inside the legacy oracle cascade.\<close>

datatype error =
    No_dapi_id
  | Contract_read_failed
  | Data_too_old
  | Feed_not_available
  | All_sources_failed

text \<open>
  Observable effects. \<open>Call f es\<close> records that the provider's function \<open>f\<close> was invoked and
  that \<open>es\<close> happened inside that invocation; \<open>Warned w\<close> records a call of
  \<^verbatim>\<open>elizaLogger.warn\<close>. The info, debug and error lines of the logger are not recorded.
\<close>

datatype operation =
    GetYeiMultiOraclePrice
  | GetCoinGeckoPrice
  | GetYeiPrice
  | GetAPI3Price
  | GetPythPrice
  | GetRedstonePrice
  | GetCexPrice
  | GetBinanceFundingRate
  | GetBybitFundingRate
  | GetOkxFundingRate

datatype warning = Zero_price | Price_too_old | Legacy_oracle_failed

datatype event = Call operation "event list" | Warned warning

section \<open>The price adapters\<close>

subsection \<open>Priority 1: the YEI Finance multi-oracle contract\<close>

text \<open>
  \<^verbatim>\<open>getYeiMultiOraclePrice\<close>. The contract's \<^verbatim>\<open>getLatestPrice()\<close> returns
  \<^verbatim>\<open>(uint256 price, uint256 timestamp, uint8 decimals)\<close>. A read that throws is caught and
  gives null. The arguments are the configured addresses, the symbol, the answer of the
  contract read and the clock reading of \<^verbatim>\<open>Date.now()\<close>.
\<close>

definition getYeiMultiOraclePrice ::
  "YeiMultiOracleAddresses \<Rightarrow> string \<Rightarrow> (256 word \<times> 256 word \<times> 8 word) rpc \<Rightarrow> int
     \<Rightarrow> PriceFeed option \<times> event list" where
  "getYeiMultiOraclePrice addrs ticker read clock =
     (case oracle_address addrs (toUpperCase ticker) of
        None \<Rightarrow> (None, [])
      | Some oracleAddress \<Rightarrow>
          (case read of
             Reverted \<Rightarrow> (None, [])
           | Returned (p, ts, decimals) \<Rightarrow>
               if p = 0 then (None, [Warned Zero_price])
               else
                 let formattedPrice = js_div (js_Number (uint p)) (js_pow10 (uint decimals));
                     timestampMs = js_mul (js_Number (uint ts)) (Fin 1000);
                     now = Date_now clock
                 in (Some \<lparr>symbol = ticker, price = formattedPrice, timestamp = timestampMs,
                            source = ''YEI Multi-Oracle'', confidence = Fin 0.98\<rparr>,
                     if js_gt (js_sub now timestampMs) (Fin 3600000)
                     then [Warned Price_too_old] else [])))"

subsection \<open>Priority 2: the CoinGecko REST index\<close>

definition coinGeckoIds :: "string \<rightharpoonup> string" where
  "coinGeckoIds = map_of
     [(''BTC'', ''bitcoin''), (''ETH'', ''ethereum''), (''SEI'', ''sei-network''),
      (''USDC'', ''usd-coin''), (''USDT'', ''tether''), (''SOL'', ''solana''),
      (''AVAX'', ''avalanche-2''), (''ATOM'', ''cosmos''), (''DAI'', ''dai'')]"

text \<open>
  \<^verbatim>\<open>getCoinGeckoPrice\<close>. The JSON body is given by the value of \<^verbatim>\<open>data[coinId]?.usd\<close>:
  \<open>None\<close> when it is undefined (or reading it throws), \<open>Some x\<close> for a number.
\<close>

definition getCoinGeckoPrice :: "string \<Rightarrow> jsnum option fetched \<Rightarrow> int \<Rightarrow> PriceFeed option" where
  "getCoinGeckoPrice ticker response clock =
     (case coinGeckoIds (toUpperCase ticker) of
        None \<Rightarrow> None
      | Some coinId \<Rightarrow>
          (case response of
             Json usd \<Rightarrow>
               (case usd of
                  None \<Rightarrow> None
                | Some p \<Rightarrow>
                    if \<not> js_truthy p \<or> js_isNaN p \<or> js_le p (Fin 0) then None
                    else Some \<lparr>symbol = ticker, price = p, timestamp = Date_now clock,
                               source = ''CoinGecko'', confidence = Fin 0.95\<rparr>)
           | Not_ok \<Rightarrow> None
           | Fetch_failed \<Rightarrow> None
           | Bad_json \<Rightarrow> None))"

subsection \<open>Priority 4: the Pyth on-chain feed\<close>

definition pythPriceFeeds :: "string \<rightharpoonup> string" where
  "pythPriceFeeds = map_of
     [(''BTC'', ''0xe62df6c8b4a85fe1a67db44dc12de5db330f7ac66b72dc658afedf0f4a415b43''),
      (''ETH'', ''0xff61491a931112ddf1bd8147cd1b641375f79f5825126d665480874634fd0ace''),
      (''SEI'', ''0x53614f1cb0c031d4af66c04cb9c756234adad0e1cee85303795091499a4084eb''),
      (''USDC'', ''0xeaa020c61cc479712813461ce153894a96a6c00b21ed0cfc2798d1f9a9e9c94a'')]"

text \<open>
  \<^verbatim>\<open>getPythPrice\<close>. \<^verbatim>\<open>getPriceUnsafe\<close> returns the struct
  \<^verbatim>\<open>(int64 price, uint64 conf, int32 expo, uint256 publishTime)\<close>; a decoded struct is an
  object, so the test \<^verbatim>\<open>!result\<close> never holds. The publish time is copied into the quote
  and never compared with the clock.
\<close>

definition getPythPrice ::
  "string \<Rightarrow> (64 word \<times> 64 word \<times> 32 word \<times> 256 word) rpc \<Rightarrow> PriceFeed option" where
  "getPythPrice ticker read =
     (case pythPriceFeeds ticker of
        None \<Rightarrow> None
      | Some feedId \<Rightarrow>
          (case read of
             Reverted \<Rightarrow> None
           | Returned (p, conf, expo, publishTime) \<Rightarrow>
               if p = 0 then None
               else
                 let priceValue = js_mul (js_Number (sint p)) (js_pow10 (sint expo));
                     confidenceValue = js_mul (js_Number (uint conf)) (js_pow10 (sint expo));
                     timestampMs = js_mul (js_Number (uint publishTime)) (Fin 1000)
                 in if js_isNaN priceValue \<or> js_le priceValue (Fin 0) then None
                    else Some \<lparr>symbol = ticker, price = priceValue, timestamp = timestampMs,
                               source = ''pyth'', confidence = confidenceValue\<rparr>))"

subsection \<open>Priority 5: the Binance spot ticker\<close>

text \<open>
  \<^verbatim>\<open>getCexPrice\<close>. The JSON body is given by the value of \<^verbatim>\<open>parseFloat(data.price)\<close>:
  \<open>None\<close> when reading \<^verbatim>\<open>data.price\<close> throws, \<open>Some NaN\<close> when the field is absent or
  not numeric.
\<close>

definition cexSupportedSymbols :: "string list" where
  "cexSupportedSymbols = [''BTC'', ''ETH'', ''SEI'', ''USDC'', ''SOL'', ''AVAX'']"

definition getCexPrice :: "string \<Rightarrow> jsnum option fetched \<Rightarrow> int \<Rightarrow> PriceFeed option" where
  "getCexPrice ticker response clock =
     (if ticker \<notin> set cexSupportedSymbols then None
      else
        (case response of
           Json parsed \<Rightarrow>
             (case parsed of
                None \<Rightarrow> None
              | Some p \<Rightarrow>
                  if js_isNaN p \<or> js_le p (Fin 0) then None
                  else Some \<lparr>symbol = ticker, price = p, timestamp = Date_now clock,
                             source = ''Binance'', confidence = Fin 0.95\<rparr>)
         | Not_ok \<Rightarrow> None
         | Fetch_failed \<Rightarrow> None
         | Bad_json \<Rightarrow> None))"

subsection \<open>Priority 3: the legacy oracle cascade\<close>

text \<open>\<^verbatim>\<open>getAPI3dApiId\<close> throws for a symbol without a dAPI id.\<close>

definition dApiIds :: "string \<rightharpoonup> string" where
  "dApiIds = map_of
     [(''BTC'', ''0xe62df6c8b4a85fe1a67db44dc12de5db330f7ac66b72dc658afedf0f4a415b43''),
      (''ETH'', ''0xff61491a931112ddf1bd8147cd1b641375f79f5825126d665480874634fd0ace''),
      (''SEI'', ''0x53614f1cb0c031d4af66c04cb9c756234adad0e1cee85303795091499a4084eb''),
      (''USDC'', ''0xeaa020c61cc479712813461ce153894a96a6c00b21ed0cfc2798d1f9a9e9c94a'')]"

definition getAPI3dApiId :: "string \<Rightarrow> error + string" where
  "getAPI3dApiId ticker =
     (case dApiIds (toUpperCase ticker) of None \<Rightarrow> Inl No_dapi_id | Some dApiId \<Rightarrow> Inr dApiId)"

fun js_floor :: "jsnum \<Rightarrow> jsnum" where
  "js_floor (Fin x) = Fin (of_int \<lfloor>x\<rfloor>)"
| "js_floor a = a"

text \<open>
  \<^verbatim>\<open>getAPI3Price\<close>. \<^verbatim>\<open>readDataFeed\<close> returns \<^verbatim>\<open>(int224 value, uint32 timestamp)\<close>; an
  observation more than 3600 seconds old is thrown away as an error.
\<close>

definition getAPI3Price :: "string \<Rightarrow> (224 word \<times> 32 word) rpc \<Rightarrow> int \<Rightarrow> error + jsnum" where
  "getAPI3Price ticker read clock =
     (case getAPI3dApiId ticker of
        Inl e \<Rightarrow> Inl e
      | Inr dApiId \<Rightarrow>
          (case read of
             Reverted \<Rightarrow> Inl Contract_read_failed
           | Returned (v, ts) \<Rightarrow>
               let p = js_div (js_Number (sint v)) (Fin (10 ^ 18));
                   tstamp = js_Number (uint ts);
                   now = js_floor (js_div (Date_now clock) (Fin 1000))
               in if js_gt (js_sub now tstamp) (Fin 3600) then Inl Data_too_old else Inr p))"

text \<open>
  \<^verbatim>\<open>getRedstonePrice\<close>. \<^verbatim>\<open>getLatestRoundData\<close> returns \<^verbatim>\<open>(int256 price, uint256 timestamp)\<close>;
  the timestamp is not read.
\<close>

definition getRedstonePrice :: "string \<Rightarrow> (256 word \<times> 256 word) rpc \<Rightarrow> error + jsnum" where
  "getRedstonePrice ticker read =
     (if ticker \<notin> set [''USDT'', ''USDC''] then Inl Feed_not_available
      else
        (case read of
           Reverted \<Rightarrow> Inl Contract_read_failed
         | Returned (p, ts) \<Rightarrow> Inr (js_div (js_Number (sint p)) (Fin (10 ^ 8)))))"

text \<open>The test \<^verbatim>\<open>x && x > 0\<close> on a number.\<close>

definition positive :: "jsnum \<Rightarrow> bool" where
  "positive x = (js_truthy x \<and> js_gt x (Fin 0))"

text \<open>The answers and clock readings one call of \<^verbatim>\<open>getPrice\<close> can consume.\<close>

record price_world =
  now_check :: int
  multi_read :: "(256 word \<times> 256 word \<times> 8 word) rpc"
  multi_now :: int
  gecko_response :: "jsnum option fetched"
  gecko_now :: int
  api3_read :: "(224 word \<times> 32 word) rpc"
  api3_now :: int
  legacy_pyth_read :: "(64 word \<times> 64 word \<times> 32 word \<times> 256 word) rpc"
  redstone_read :: "(256 word \<times> 256 word) rpc"
  legacy_now :: int
  pyth_read :: "(64 word \<times> 64 word \<times> 32 word \<times> 256 word) rpc"
  cex_response :: "jsnum option fetched"
  cex_now :: int

text \<open>
  \<^verbatim>\<open>getYeiPrice\<close>: API3, then Pyth, then Redstone, each inside its own try/catch; when all
  three are exhausted the function throws.
\<close>

definition getYeiPrice :: "string \<Rightarrow> price_world \<Rightarrow> (error + jsnum) \<times> event list" where
  "getYeiPrice ticker w =
     (let api3 = getAPI3Price ticker (api3_read w) (api3_now w);
          ev1 = [Call GetAPI3Price []]
      in case (case api3 of Inr p \<Rightarrow> if positive p then Some p else None | Inl e \<Rightarrow> None) of
           Some api3Price \<Rightarrow> (Inr api3Price, ev1)
         | None \<Rightarrow>
        (let pythPrice = getPythPrice ticker (legacy_pyth_read w);
             ev2 = ev1 @ [Call GetPythPrice []]
         in case (case pythPrice of Some q \<Rightarrow> if js_gt (price q) (Fin 0) then Some (price q) else None
                                   | None \<Rightarrow> None) of
              Some pythValue \<Rightarrow> (Inr pythValue, ev2)
            | None \<Rightarrow>
           (let redstone = getRedstonePrice ticker (redstone_read w);
                ev3 = ev2 @ [Call GetRedstonePrice []]
            in case (case redstone of Inr p \<Rightarrow> if positive p then Some p else None
                                     | Inl e \<Rightarrow> None) of
                 Some redstonePrice \<Rightarrow> (Inr redstonePrice, ev3)
               | None \<Rightarrow> (Inl All_sources_failed, ev3))))"

section \<open>The price resolver\<close>

text \<open>
  The provider object: the two caches (JavaScript maps keyed by the symbol string), the
  handle of the refresh timer and the configured oracle addresses.
\<close>

record provider =
  priceCache :: "string \<rightharpoonup> PriceFeed"
  fundingRateCache :: "string \<rightharpoonup> FundingRate list"
  updateInterval :: "nat option"
  yeiMultiOracleAddresses :: YeiMultiOracleAddresses

text \<open>\<^verbatim>\<open>this.config.updateInterval * 1000\<close>, with \<^verbatim>\<open>updateInterval: 30\<close> seconds.\<close>

definition cacheWindow :: jsnum where
  "cacheWindow = js_mul (Fin 30) (Fin 1000)"

text \<open>The cache test \<^verbatim>\<open>Date.now() - ts < this.config.updateInterval * 1000\<close>.\<close>

definition fresh :: "int \<Rightarrow> jsnum \<Rightarrow> bool" where
  "fresh clock ts = js_lt (js_sub (Date_now clock) ts) cacheWindow"

definition yeiSupportedSymbols :: "string list" where
  "yeiSupportedSymbols = [''BTC'', ''ETH'', ''SEI'', ''USDC'', ''USDT'']"

text \<open>
  Priority 3 of \<^verbatim>\<open>getPrice\<close> (the block guarded by \<^verbatim>\<open>yeiSupportedSymbols.includes\<close>):
  the legacy cascade is called inside a try/catch, and its number is wrapped into a quote
  stamped with the clock.
\<close>

definition yeiLegacyStep :: "string \<Rightarrow> price_world \<Rightarrow> PriceFeed option \<times> event list" where
  "yeiLegacyStep ticker w =
     (if toUpperCase ticker \<in> set yeiSupportedSymbols then
        (case getYeiPrice ticker w of
           (Inr yeiPrice, evs) \<Rightarrow>
             (if positive yeiPrice
              then Some \<lparr>symbol = ticker, price = yeiPrice, timestamp = Date_now (legacy_now w),
                         source = ''yei-legacy-oracle'', confidence = Fin 0.95\<rparr>
              else None,
              [Call GetYeiPrice evs])
         | (Inl e, evs) \<Rightarrow> (None, [Call GetYeiPrice evs, Warned Legacy_oracle_failed]))
      else (None, []))"

text \<open>
  The five priorities of \<^verbatim>\<open>getPrice\<close>: each later source is consulted only while
  \<^verbatim>\<open>price\<close> is still null.
\<close>

definition cascade ::
  "YeiMultiOracleAddresses \<Rightarrow> string \<Rightarrow> price_world \<Rightarrow> PriceFeed option \<times> event list" where
  "cascade addrs ticker w =
     (let (p1, e1) = getYeiMultiOraclePrice addrs ticker (multi_read w) (multi_now w);
          ev1 = [Call GetYeiMultiOraclePrice e1]
      in case p1 of
           Some q \<Rightarrow> (Some q, ev1)
         | None \<Rightarrow>
        (let p2 = getCoinGeckoPrice ticker (gecko_response w) (gecko_now w);
             ev2 = ev1 @ [Call GetCoinGeckoPrice []]
         in case p2 of
              Some q \<Rightarrow> (Some q, ev2)
            | None \<Rightarrow>
           (let (p3, e3) = yeiLegacyStep ticker w;
                ev3 = ev2 @ e3
            in case p3 of
                 Some q \<Rightarrow> (Some q, ev3)
               | None \<Rightarrow>
              (let p4 = getPythPrice ticker (pyth_read w);
                   ev4 = ev3 @ [Call GetPythPrice []]
               in case p4 of
                    Some q \<Rightarrow> (Some q, ev4)
                  | None \<Rightarrow>
                      (getCexPrice ticker (cex_response w) (cex_now w),
                       ev4 @ [Call GetCexPrice []])))))"

text \<open>
  \<^verbatim>\<open>getPrice\<close>: the cache test, the cascade, the final guard
  \<^verbatim>\<open>price && !isNaN(price.price) && price.price > 0\<close> and the write into the cache. The
  result is the returned quote (or null), the provider afterwards and the effects.
\<close>

definition getPrice ::
  "provider \<Rightarrow> string \<Rightarrow> price_world \<Rightarrow> PriceFeed option \<times> provider \<times> event list" where
  "getPrice s ticker w =
     (case (case priceCache s ticker of
              Some cached \<Rightarrow> if fresh (now_check w) (timestamp cached) then Some cached else None
            | None \<Rightarrow> None) of
        Some cached \<Rightarrow> (Some cached, s, [])
      | None \<Rightarrow>
          (let (found, evs) = cascade (yeiMultiOracleAddresses s) ticker w
           in case found of
                Some q \<Rightarrow>
                  if \<not> js_isNaN (price q) \<and> js_gt (price q) (Fin 0)
                  then (Some q, s\<lparr>priceCache := (priceCache s)(ticker \<mapsto> q)\<rparr>, evs)
                  else (None, s, evs)
              | None \<Rightarrow> (None, s, evs)))"

section \<open>The funding-rate aggregator\<close>

text \<open>
  The answers one call of \<^verbatim>\<open>getFundingRates\<close> can consume. A JSON body is given by what
  the adapter reads from it. Binance: \<open>None\<close> when reading the fields throws, else
  \<^verbatim>\<open>parseFloat(data.lastFundingRate)\<close> and \<^verbatim>\<open>parseInt(data.nextFundingTime)\<close>, each NaN when
  the field is absent or not numeric. Bybit: \<open>None\<close> when \<^verbatim>\<open>data.result.list\<close> cannot be
  read, else the list of its tickers as \<^verbatim>\<open>(parseFloat(fundingRate), parseInt(nextFundingTime))\<close>.
  OKX: \<open>None\<close> when \<^verbatim>\<open>data.data\<close> cannot be read, else the list of its entries as
  \<^verbatim>\<open>(parseFloat(fundingRate), parseInt(fundingTime), parseInt(nextFundingTime))\<close>.
\<close>

record funding_world =
  funding_now_check :: int
  binance_funding :: "(jsnum \<times> jsnum) option fetched"
  binance_now :: int
  bybit_funding :: "(jsnum \<times> jsnum) list option fetched"
  bybit_now :: int
  okx_funding :: "(jsnum \<times> jsnum \<times> jsnum) list option fetched"

definition getBinanceFundingRate ::
  "string \<Rightarrow> (jsnum \<times> jsnum) option fetched \<Rightarrow> int \<Rightarrow> FundingRate option" where
  "getBinanceFundingRate ticker response clock =
     (case response of
        Json body \<Rightarrow>
          (case body of
             None \<Rightarrow> None
           | Some (lastFundingRate, nextTime) \<Rightarrow>
               Some \<lparr>fr_symbol = ticker, rate = js_mul lastFundingRate (Fin 8760),
                     fr_timestamp = Date_now clock, exchange = ''Binance'',
                     nextFundingTime = nextTime\<rparr>)
      | Not_ok \<Rightarrow> None
      | Fetch_failed \<Rightarrow> None
      | Bad_json \<Rightarrow> None)"

text \<open>Bybit and OKX read the first element of a list; on an empty list the read of its field throws.\<close>

definition getBybitFundingRate ::
  "string \<Rightarrow> (jsnum \<times> jsnum) list option fetched \<Rightarrow> int \<Rightarrow> FundingRate option" where
  "getBybitFundingRate ticker response clock =
     (case response of
        Json body \<Rightarrow>
          (case body of
             None \<Rightarrow> None
           | Some [] \<Rightarrow> None
           | Some ((fundingRate, nextTime) # rest) \<Rightarrow>
               Some \<lparr>fr_symbol = ticker, rate = js_mul fundingRate (Fin 8760),
                     fr_timestamp = Date_now clock, exchange = ''Bybit'',
                     nextFundingTime = nextTime\<rparr>)
      | Not_ok \<Rightarrow> None
      | Fetch_failed \<Rightarrow> None
      | Bad_json \<Rightarrow> None)"

definition getOkxFundingRate ::
  "string \<Rightarrow> (jsnum \<times> jsnum \<times> jsnum) list option fetched \<Rightarrow> FundingRate option" where
  "getOkxFundingRate ticker response =
     (case response of
        Json body \<Rightarrow>
          (case body of
             None \<Rightarrow> None
           | Some [] \<Rightarrow> None
           | Some ((fundingRate, fundingTime, nextTime) # rest) \<Rightarrow>
               Some \<lparr>fr_symbol = ticker, rate = js_mul fundingRate (Fin 8760),
                     fr_timestamp = fundingTime, exchange = ''OKX'',
                     nextFundingTime = nextTime\<rparr>)
      | Not_ok \<Rightarrow> None
      | Fetch_failed \<Rightarrow> None
      | Bad_json \<Rightarrow> None)"

text \<open>
  \<^verbatim>\<open>getFundingRates\<close>: the cache test on the first entry of the cached list, the three
  requests of \<^verbatim>\<open>Promise.all\<close> (all three functions are called before any answer is looked
  at), the filter \<^verbatim>\<open>r !== null\<close> and the write into the cache.
\<close>

definition getFundingRates ::
  "provider \<Rightarrow> string \<Rightarrow> funding_world \<Rightarrow> FundingRate list \<times> provider \<times> event list" where
  "getFundingRates s ticker w =
     (case (case fundingRateCache s ticker of
              Some (c # cs) \<Rightarrow>
                if fresh (funding_now_check w) (fr_timestamp c) then Some (c # cs) else None
            | Some [] \<Rightarrow> None
            | None \<Rightarrow> None) of
        Some cached \<Rightarrow> (cached, s, [])
      | None \<Rightarrow>
          (let rates = [getBinanceFundingRate ticker (binance_funding w) (binance_now w),
                        getBybitFundingRate ticker (bybit_funding w) (bybit_now w),
                        getOkxFundingRate ticker (okx_funding w)];
               validRates = List.map_filter (\<lambda>r. r) rates;
               evs = [Call GetBinanceFundingRate [], Call GetBybitFundingRate [],
                      Call GetOkxFundingRate []]
           in if validRates \<noteq> []
              then (validRates, s\<lparr>fundingRateCache := (fundingRateCache s)(ticker \<mapsto> validRates)\<rparr>, evs)
              else (validRates, s, evs)))"

section \<open>The refresh scheduler\<close>

text \<open>
  One run of the timer callback of \<^verbatim>\<open>startPriceUpdates\<close>: \<^verbatim>\<open>getPrice\<close> for the three
  symbols, then \<^verbatim>\<open>getFundingRates\<close> for the three symbols, the results discarded. The
  calls of one \<^verbatim>\<open>Promise.all\<close> are taken one after the other.
\<close>

record tick_world =
  tick_prices :: "string \<Rightarrow> price_world"
  tick_funding :: "string \<Rightarrow> funding_world"

definition refreshSymbols :: "string list" where
  "refreshSymbols = [''BTC'', ''ETH'', ''SEI'']"

fun refreshPrices :: "provider \<Rightarrow> string list \<Rightarrow> (string \<Rightarrow> price_world) \<Rightarrow> provider \<times> event list" where
  "refreshPrices s [] pw = (s, [])"
| "refreshPrices s (x # xs) pw =
     (case getPrice s x (pw x) of
        (r, s', e) \<Rightarrow> (case refreshPrices s' xs pw of (s'', e') \<Rightarrow> (s'', e @ e')))"

fun refreshFunding :: "provider \<Rightarrow> string list \<Rightarrow> (string \<Rightarrow> funding_world) \<Rightarrow> provider \<times> event list" where
  "refreshFunding s [] fw = (s, [])"
| "refreshFunding s (x # xs) fw =
     (case getFundingRates s x (fw x) of
        (r, s', e) \<Rightarrow> (case refreshFunding s' xs fw of (s'', e') \<Rightarrow> (s'', e @ e')))"

definition tick :: "provider \<Rightarrow> tick_world \<Rightarrow> provider \<times> event list" where
  "tick s tw =
     (case refreshPrices s refreshSymbols (tick_prices tw) of
        (s', e) \<Rightarrow>
          (case refreshFunding s' refreshSymbols (tick_funding tw) of
             (s'', e') \<Rightarrow> (s'', e @ e')))"

text \<open>
  The process: the provider, the interval timers that are armed in the JavaScript runtime
  (by their handles) and the next handle \<^verbatim>\<open>setInterval\<close> will hand out.
\<close>

record process =
  prov :: provider
  intervals :: "nat list"
  next_handle :: nat

definition startPriceUpdates :: "process \<Rightarrow> process" where
  "startPriceUpdates r =
     (case updateInterval (prov r) of
        Some h \<Rightarrow> r
      | None \<Rightarrow>
          r\<lparr>prov := (prov r)\<lparr>updateInterval := Some (next_handle r)\<rparr>,
            intervals := intervals r @ [next_handle r],
            next_handle := Suc (next_handle r)\<rparr>)"

definition stopPriceUpdates :: "process \<Rightarrow> process" where
  "stopPriceUpdates r =
     (case updateInterval (prov r) of
        Some h \<Rightarrow>
          r\<lparr>prov := (prov r)\<lparr>updateInterval := None\<rparr>,
            intervals := removeAll h (intervals r)\<rparr>
      | None \<Rightarrow> r)"

text \<open>One period of 30 seconds goes by: every armed timer runs its callback once.\<close>

fun fire :: "nat list \<Rightarrow> provider \<Rightarrow> (nat \<Rightarrow> tick_world) \<Rightarrow> provider \<times> event list" where
  "fire [] s tw = (s, [])"
| "fire (h # hs) s tw =
     (case tick s (tw h) of (s', e) \<Rightarrow> (case fire hs s' tw of (s'', e') \<Rightarrow> (s'', e @ e')))"

definition elapse :: "process \<Rightarrow> (nat \<Rightarrow> tick_world) \<Rightarrow> process \<times> event list" where
  "elapse r tw = (case fire (intervals r) (prov r) tw of (s, e) \<Rightarrow> (r\<lparr>prov := s\<rparr>, e))"

text \<open>What can happen to a process, and the processes that can arise from a new provider.\<close>

datatype action =
    Start
  | Stop
  | Period "nat \<Rightarrow> tick_world"
  | Price string price_world
  | Funding string funding_world

fun perform :: "process \<Rightarrow> action \<Rightarrow> process \<times> event list" where
  "perform r Start = (startPriceUpdates r, [])"
| "perform r Stop = (stopPriceUpdates r, [])"
| "perform r (Period tw) = elapse r tw"
| "perform r (Price ticker w) =
     (case getPrice (prov r) ticker w of (q, s, e) \<Rightarrow> (r\<lparr>prov := s\<rparr>, e))"
| "perform r (Funding ticker w) =
     (case getFundingRates (prov r) ticker w of (q, s, e) \<Rightarrow> (r\<lparr>prov := s\<rparr>, e))"

definition new_provider :: "YeiMultiOracleAddresses \<Rightarrow> provider" where
  "new_provider addrs =
     \<lparr>priceCache = Map.empty, fundingRateCache = Map.empty, updateInterval = None,
      yeiMultiOracleAddresses = addrs\<rparr>"

definition new_process :: "YeiMultiOracleAddresses \<Rightarrow> process" where
  "new_process addrs = \<lparr>prov = new_provider addrs, intervals = [], next_handle = 0\<rparr>"

inductive reachable :: "process \<Rightarrow> bool" where
  reachable_new: "reachable (new_process addrs)"
| reachable_perform: "reachable r \<Longrightarrow> reachable (fst (perform r a))"

section \<open>Notions used in the statements\<close>

text \<open>The functions invoked at the top level of a list of effects, in their order.\<close>

fun invoked :: "event list \<Rightarrow> operation list" where
  "invoked [] = []"
| "invoked (Call m sub # es) = m # invoked es"
| "invoked (Warned x # es) = invoked es"

text \<open>There is no usable cache entry: none at all, or one the cache test rejects.\<close>

definition price_cache_miss :: "provider \<Rightarrow> string \<Rightarrow> price_world \<Rightarrow> bool" where
  "price_cache_miss s ticker w =
     (case priceCache s ticker of
        Some cached \<Rightarrow> \<not> fresh (now_check w) (timestamp cached)
      | None \<Rightarrow> True)"

definition funding_cache_miss :: "provider \<Rightarrow> string \<Rightarrow> funding_world \<Rightarrow> bool" where
  "funding_cache_miss s ticker w =
     (case fundingRateCache s ticker of
        Some (c # cs) \<Rightarrow> \<not> fresh (funding_now_check w) (fr_timestamp c)
      | Some [] \<Rightarrow> True
      | None \<Rightarrow> True)"

text \<open>The list \<^verbatim>\<open>validRates\<close> that \<^verbatim>\<open>getFundingRates\<close> computes when it does not answer from the cache.\<close>

definition validRates :: "string \<Rightarrow> funding_world \<Rightarrow> FundingRate list" where
  "validRates ticker w = List.map_filter (\<lambda>r. r)
     [getBinanceFundingRate ticker (binance_funding w) (binance_now w),
      getBybitFundingRate ticker (bybit_funding w) (bybit_now w),
      getOkxFundingRate ticker (okx_funding w)]"

text \<open>The validity test of the source on a quote's price: not NaN and greater than zero.\<close>

definition valid_price :: "jsnum \<Rightarrow> bool" where
  "valid_price x = (\<not> js_isNaN x \<and> js_gt x (Fin 0))"

text \<open>Every cached quote passes the validity test of the source.\<close>

definition cache_valid :: "provider \<Rightarrow> bool" where
  "cache_valid s = (\<forall>ticker q. priceCache s ticker = Some q \<longrightarrow> valid_price (price q))"

text \<open>
  The armed timers are exactly the timer whose handle the provider holds, if it holds one.
\<close>

definition timer_inv :: "process \<Rightarrow> bool" where
  "timer_inv r =
     (intervals r = (case updateInterval (prov r) of None \<Rightarrow> [] | Some h \<Rightarrow> [h]))"

text \<open>Several periods go by, one after the other.\<close>

fun elapse_all :: "process \<Rightarrow> (nat \<Rightarrow> tick_world) list \<Rightarrow> process \<times> event list" where
  "elapse_all r [] = (r, [])"
| "elapse_all r (tw # tws) =
     (case elapse r tw of (r', e) \<Rightarrow> (case elapse_all r' tws of (r'', e') \<Rightarrow> (r'', e @ e')))"

subsection \<open>The cascade as the specification words it\<close>

text \<open>
  The adapters that apply to a symbol, in their priority order; the legacy cascade is in
  the list only for a symbol of its allow-list.
\<close>

definition priority :: "string \<Rightarrow> operation list" where
  "priority ticker =
     [GetYeiMultiOraclePrice, GetCoinGeckoPrice]
     @ (if toUpperCase ticker \<in> set yeiSupportedSymbols then [GetYeiPrice] else [])
     @ [GetPythPrice, GetCexPrice]"

text \<open>What each of the five adapters yields for a symbol in a given world.\<close>

fun answer :: "YeiMultiOracleAddresses \<Rightarrow> string \<Rightarrow> price_world \<Rightarrow> operation \<Rightarrow> PriceFeed option" where
  "answer addrs ticker w GetYeiMultiOraclePrice =
     fst (getYeiMultiOraclePrice addrs ticker (multi_read w) (multi_now w))"
| "answer addrs ticker w GetCoinGeckoPrice =
     getCoinGeckoPrice ticker (gecko_response w) (gecko_now w)"
| "answer addrs ticker w GetYeiPrice = fst (yeiLegacyStep ticker w)"
| "answer addrs ticker w GetPythPrice = getPythPrice ticker (pyth_read w)"
| "answer addrs ticker w GetCexPrice = getCexPrice ticker (cex_response w) (cex_now w)"
| "answer addrs ticker w m = None"

text \<open>
  "Invoke the adapters in order, stopping at the first adapter that returns a quote": the
  quote (if any) and the adapters that were invoked.
\<close>

fun first_success :: "(operation \<Rightarrow> 'a option) \<Rightarrow> operation list \<Rightarrow> 'a option \<times> operation list" where
  "first_success f [] = (None, [])"
| "first_success f (m # ms) =
     (case f m of
        Some q \<Rightarrow> (Some q, [m])
      | None \<Rightarrow> (case first_success f ms of (r, tried) \<Rightarrow> (r, m # tried)))"

text \<open>
  The three levels of the legacy cascade in their order, and the number each level
  contributes: its price when the level returns one that passes \<^verbatim>\<open>x && x > 0\<close> (for Pyth,
  \<^verbatim>\<open>pythPrice && pythPrice.price > 0\<close>), nothing when it throws or the test fails.
\<close>

definition legacy_levels :: "operation list" where
  "legacy_levels = [GetAPI3Price, GetPythPrice, GetRedstonePrice]"

fun level_answer :: "string \<Rightarrow> price_world \<Rightarrow> operation \<Rightarrow> jsnum option" where
  "level_answer ticker w GetAPI3Price =
     (case getAPI3Price ticker (api3_read w) (api3_now w) of
        Inr p \<Rightarrow> if positive p then Some p else None
      | Inl e \<Rightarrow> None)"
| "level_answer ticker w GetPythPrice =
     (case getPythPrice ticker (legacy_pyth_read w) of
        Some q \<Rightarrow> if js_gt (price q) (Fin 0) then Some (price q) else None
      | None \<Rightarrow> None)"
| "level_answer ticker w GetRedstonePrice =
     (case getRedstonePrice ticker (redstone_read w) of
        Inr p \<Rightarrow> if positive p then Some p else None
      | Inl e \<Rightarrow> None)"
| "level_answer ticker w m = None"

subsection \<open>Source faults\<close>


text \<open>
  A funding request has failed when \<^verbatim>\<open>fetch\<close> threw, the status was not ok, the body
  could not be parsed, or the object (for Bybit and OKX: the first list element) whose
  fields the adapter reads is not there.
\<close>

definition failed_fetch :: "'a option fetched \<Rightarrow> bool" where
  "failed_fetch r = (case r of Json (Some x) \<Rightarrow> False | _ \<Rightarrow> True)"

definition failed_list_fetch :: "'a list option fetched \<Rightarrow> bool" where
  "failed_list_fetch r = (case r of Json (Some (x # xs)) \<Rightarrow> False | _ \<Rightarrow> True)"



section \<open>Example inputs\<close>

definition example_addresses :: YeiMultiOracleAddresses where
  "example_addresses =
     \<lparr>addr_SEI = Some ''0xa2aCDc40e5ebCE7f8554E66eCe6734937A48B3f3'',
      addr_USDC = Some ''0xEAb459AD7611D5223A408A2e73b69173F61bb808'',
      addr_USDT = Some ''0x284db472a483e115e3422dd30288b24182E36DdB'',
      addr_ETH = Some ''0x3E45Fb956D2Ba2CB5Fa561c40E5912225E64F7B2'',
      addr_BTC = Some ''0x5555555555555555555555555555555555555555''\<rparr>"

text \<open>A world at clock reading 1700000000000 ms in which every source is down.\<close>

definition all_down :: price_world where
  "all_down =
     \<lparr>now_check = 1700000000000, multi_read = Reverted, multi_now = 1700000000000,
      gecko_response = Fetch_failed, gecko_now = 1700000000000,
      api3_read = Reverted, api3_now = 1700000000000,
      legacy_pyth_read = Reverted, redstone_read = Reverted, legacy_now = 1700000000000,
      pyth_read = Reverted, cex_response = Fetch_failed, cex_now = 1700000000000\<rparr>"

definition funding_all_down :: funding_world where
  "funding_all_down =
     \<lparr>funding_now_check = 1700000000000, binance_funding = Fetch_failed,
      binance_now = 1700000000000, bybit_funding = Fetch_failed,
      bybit_now = 1700000000000, okx_funding = Fetch_failed\<rparr>"

text \<open>The answers for a refresh during which every source is down.\<close>

definition sources_down :: "nat \<Rightarrow> tick_world" where
  "sources_down h = \<lparr>tick_prices = (\<lambda>ticker. all_down), tick_funding = (\<lambda>ticker. funding_all_down)\<rparr>"

text \<open>
  The scenario of the specification: the multi-oracle contract reports a zero price and
  CoinGecko reports 65000.5.
\<close>

definition btc_scenario :: price_world where
  "btc_scenario = all_down\<lparr>multi_read := Returned (0, 1699999990, 8),
                            gecko_response := Json (Some (Fin 65000.5))\<rparr>"

text \<open>Binance and OKX answer, Bybit answers with a status that is not ok.\<close>

definition bybit_down :: funding_world where
  "bybit_down = funding_all_down\<lparr>
     binance_funding := Json (Some (Fin 0.0001, Fin 1700003600000)),
     bybit_funding := Not_ok,
     okx_funding := Json (Some [(Fin (- 0.0002), Fin 1699999200000, Fin 1700028000000)])\<rparr>"

text \<open>
  A read of the SEI multi-oracle whose observation is 60 seconds older than the clock of
  the call, and a second call one second after the first with every source down.
\<close>

definition stale_observation :: price_world where
  "stale_observation = all_down\<lparr>multi_read := Returned (2500000, 1699999940, 6)\<rparr>"

definition one_second_later :: price_world where
  "one_second_later = all_down\<lparr>now_check := 1700000001000\<rparr>"

definition sei_quote :: PriceFeed where
  "sei_quote = \<lparr>symbol = ''SEI'', price = Fin 2.5, timestamp = Fin 1699999940000,
                 source = ''YEI Multi-Oracle'', confidence = Fin 0.98\<rparr>"

text \<open>CoinGecko answers with a number that parses to \<^verbatim>\<open>Infinity\<close>, and every other source is down.\<close>

definition infinite_index :: price_world where
  "infinite_index = all_down\<lparr>gecko_response := Json (Some PInf)\<rparr>"

definition infinite_quote :: PriceFeed where
  "infinite_quote = \<lparr>symbol = ''BTC'', price = PInf, timestamp = Fin 1700000000000,
                      source = ''CoinGecko'', confidence = Fin 0.95\<rparr>"

text \<open>
  For BTC, the legacy read of Pyth returns the price 6500000000000 with exponent -8 and the
  publish time 0 (the first second of 1970), while the clock of the call is in 2023; every
  other source is down.
\<close>

definition ancient_pyth :: price_world where
  "ancient_pyth = all_down\<lparr>legacy_pyth_read := Returned (6500000000000, 1000000000, - 8, 0)\<rparr>"


text \<open>Binance alone answers, with the body \<^verbatim>\<open>{}\<close>; Bybit and OKX are down.\<close>

definition binance_fields_missing :: funding_world where
  "binance_fields_missing = funding_all_down\<lparr>binance_funding := Json (Some (NaN, NaN))\<rparr>"

section \<open>Facts about the number model\<close>

lemma js_of_real_zero: "js_of_real 0 = Fin 0"
  by (simp add: js_of_real_def)

lemma js_of_real_pos:
  assumes "1 / 2 ^ 1075 < x" and "x < 2 ^ 1024 - 2 ^ 970"
  shows "js_of_real x = Fin x"
  using assms by (auto simp: js_of_real_def)

lemma tiny_lt: "(1::real) / 2 ^ 1075 < 1 / 10 ^ 255"
  by simp

lemma pow10_255_lt: "(10::real) ^ 255 < 2 ^ 1024 - 2 ^ 970"
  by simp

lemma two256_lt: "(2::real) ^ 256 * 1000 < 2 ^ 1024 - 2 ^ 970"
  by simp

lemma pow10_bound: "n \<le> 255 \<Longrightarrow> (10::real) ^ n \<le> 10 ^ 255"
  by (rule power_increasing) simp_all

lemma real_uint256_lt: "real_of_int (uint (p :: 256 word)) < 2 ^ 256"
proof -
  have "uint p < 2 ^ 256" using uint_bounded [of p] by simp
  then show ?thesis by (metis of_int_less_iff of_int_numeral of_int_power)
qed

lemma real_uint_ge1: "p \<noteq> 0 \<Longrightarrow> 1 \<le> real_of_int (uint (p :: 'a::len word))"
proof -
  assume "p \<noteq> 0"
  then have "uint p \<noteq> 0" by (simp add: uint_0_iff)
  moreover have "0 \<le> uint p" by simp
  ultimately have "1 \<le> uint p" by linarith
  then show ?thesis by (simp only: of_int_1_le_iff)
qed

lemma js_Number_uint256: "js_Number (uint (p :: 256 word)) = Fin (real_of_int (uint p))"
proof (cases "p = 0")
  case True
  then show ?thesis by (simp add: js_Number_def js_of_real_zero)
next
  case False
  then have one: "1 \<le> real_of_int (uint p)" by (rule real_uint_ge1)
  have "(1::real) / 2 ^ 1075 < 1" by simp
  with one have lo: "1 / 2 ^ 1075 < real_of_int (uint p)" by linarith
  have "(2::real) ^ 256 < 2 ^ 1024 - 2 ^ 970" by simp
  with real_uint256_lt [of p] have hi: "real_of_int (uint p) < 2 ^ 1024 - 2 ^ 970" by linarith
  show ?thesis unfolding js_Number_def by (rule js_of_real_pos [OF lo hi])
qed

lemma js_pow10_uint8: "js_pow10 (uint (d :: 8 word)) = Fin (10 ^ unat d)"
proof -
  have n: "unat d \<le> 255" using unsigned_less [of d, where 'a = nat] by simp
  have e: "(10::real) powi (uint d) = 10 ^ unat d"
    by (simp add: power_int_def)
  have le: "(10::real) ^ unat d \<le> 10 ^ 255" by (rule pow10_bound [OF n])
  have ge: "(1::real) \<le> 10 ^ unat d" by simp
  have "(1::real) / 2 ^ 1075 < 1" by simp
  with ge have lo: "1 / 2 ^ 1075 < (10::real) ^ unat d" by linarith
  from le pow10_255_lt have hi: "(10::real) ^ unat d < 2 ^ 1024 - 2 ^ 970" by linarith
  show ?thesis unfolding js_pow10_def e by (rule js_of_real_pos [OF lo hi])
qed

lemma scaled_in_range:
  assumes "p \<noteq> (0 :: 256 word)"
  shows "js_of_real (real_of_int (uint p) / 10 ^ unat (d :: 8 word)) = Fin (real_of_int (uint p) / 10 ^ unat d)"
proof -
  have n: "unat d \<le> 255" using unsigned_less [of d, where 'a = nat] by simp
  have le: "(10::real) ^ unat d \<le> 10 ^ 255" by (rule pow10_bound [OF n])
  have ge: "(1::real) \<le> 10 ^ unat d" by simp
  from assms have one: "1 \<le> real_of_int (uint p)" by (rule real_uint_ge1)
  have "1 / 10 ^ 255 \<le> 1 / (10::real) ^ unat d"
    using le ge by (simp add: frac_le)
  also have "\<dots> \<le> real_of_int (uint p) / 10 ^ unat d"
    using one by (simp add: divide_right_mono)
  finally have a: "1 / 10 ^ 255 \<le> real_of_int (uint p) / 10 ^ unat d" .
  with tiny_lt have lo: "1 / 2 ^ 1075 < real_of_int (uint p) / 10 ^ unat d" by linarith
  have "real_of_int (uint p) / 10 ^ unat d \<le> real_of_int (uint p) / 1"
    using ge one by (intro divide_left_mono) simp_all
  then have "real_of_int (uint p) / 10 ^ unat d \<le> real_of_int (uint p)" by simp
  moreover have "(2::real) ^ 256 < 2 ^ 1024 - 2 ^ 970" by simp
  ultimately have hi: "real_of_int (uint p) / 10 ^ unat d < 2 ^ 1024 - 2 ^ 970"
    using real_uint256_lt [of p] by linarith
  show ?thesis by (rule js_of_real_pos [OF lo hi])
qed

lemma timestamp_in_range:
  "js_mul (js_Number (uint (t :: 256 word))) (Fin 1000) = Fin (real_of_int (uint t) * 1000)"
proof (cases "t = 0")
  case True
  then show ?thesis by (simp add: js_Number_def js_of_real_zero)
next
  case False
  then have one: "1 \<le> real_of_int (uint t)" by (rule real_uint_ge1)
  have "(1::real) / 2 ^ 1075 < 1" by simp
  with one have lo: "1 / 2 ^ 1075 < real_of_int (uint t) * 1000" by linarith
  have hi: "real_of_int (uint t) * 1000 < 2 ^ 1024 - 2 ^ 970"
    using real_uint256_lt [of t] two256_lt by linarith
  show ?thesis unfolding js_Number_uint256 js_mul.simps by (rule js_of_real_pos [OF lo hi])
qed

lemma js_gt_of_real:
  assumes "1 / 2 ^ 1075 < c" and "c < 2 ^ 1024 - 2 ^ 970"
  shows "js_gt (js_of_real x) (Fin c) = (c < x)"
  using assms by (auto simp: js_of_real_def js_gt_def)

lemma js_lt_of_real:
  assumes "1 / 2 ^ 1075 < c" and "c < 2 ^ 1024 - 2 ^ 970"
  shows "js_lt (js_of_real x) (Fin c) = (x < c)"
  using assms by (auto simp: js_of_real_def)

lemma age_over_hour:
  "js_gt (js_sub (Date_now clock) (Fin b)) (Fin 3600000) = (3600000 < real_of_int clock - b)"
  unfolding Date_now_def js_sub.simps by (rule js_gt_of_real) simp_all

lemma toUpperCase_examples [simp]:
  "toUpperCase ''SEI'' = ''SEI''" "toUpperCase ''BTC'' = ''BTC''" "toUpperCase ''btc'' = ''BTC''"
  "toUpperCase ''USDT'' = ''USDT''" "toUpperCase ''USDC'' = ''USDC''"
  "toUpperCase ''ETH'' = ''ETH''" "toUpperCase ''DOGE'' = ''DOGE''"
  by (simp_all add: toUpperCase_def toUpperCase_char_def)

section \<open>The multi-oracle adapter\<close>

text \<open>
  Claim C8. For a symbol with a configured oracle address, the multi-oracle adapter returns
  nothing (and warns) when the contract reports the price zero. Otherwise it returns a quote
  whose price is the raw integer price divided by ten to the power of the decimals (the
  quotient never leaves the range of a JavaScript number), whose timestamp is the contract's
  timestamp in milliseconds, and whose confidence is 0.98. When the observation is more than
  one hour (3600000 ms) older than the clock the adapter logs a warning and returns the very
  same quote.
\<close>

theorem multi_oracle_scaling:
  assumes "oracle_address addrs (toUpperCase ticker) = Some a"
  shows "getYeiMultiOraclePrice addrs ticker (Returned (p, ts, d)) clock =
     (if p = 0 then (None, [Warned Zero_price])
      else (Some \<lparr>symbol = ticker,
                  price = Fin (real_of_int (uint p) / 10 ^ unat d),
                  timestamp = Fin (real_of_int (uint ts) * 1000),
                  source = ''YEI Multi-Oracle'', confidence = Fin 0.98\<rparr>,
            if 3600000 < real_of_int clock - real_of_int (uint ts) * 1000
            then [Warned Price_too_old] else []))"
proof (cases "p = 0")
  case True
  with assms show ?thesis by (simp add: getYeiMultiOraclePrice_def)
next
  case False
  have pr: "js_div (js_Number (uint p)) (js_pow10 (uint d)) = Fin (real_of_int (uint p) / 10 ^ unat d)"
    unfolding js_Number_uint256 js_pow10_uint8 using scaled_in_range [OF False, of d] by simp
  show ?thesis
    using False
    by (simp add: getYeiMultiOraclePrice_def assms Let_def pr timestamp_in_range age_over_hour)
qed

theorem multi_oracle_scaling_witness:
  "oracle_address example_addresses (toUpperCase ''SEI'') = Some ''0xa2aCDc40e5ebCE7f8554E66eCe6734937A48B3f3''
   \<and> getYeiMultiOraclePrice example_addresses ''SEI'' (Returned (2500000, 1700000000, 6)) 1700010000000 =
       (Some \<lparr>symbol = ''SEI'', price = Fin 2.5, timestamp = Fin 1700000000000,
              source = ''YEI Multi-Oracle'', confidence = Fin 0.98\<rparr>, [Warned Price_too_old])"
proof -
  have a: "oracle_address example_addresses (toUpperCase ''SEI'') = Some ''0xa2aCDc40e5ebCE7f8554E66eCe6734937A48B3f3''"
    by (simp add: oracle_address_def example_addresses_def)
  show ?thesis
    using a multi_oracle_scaling [OF a, of 2500000 1700000000 6 1700010000000]
    by simp
qed

section \<open>Facts about the cascade\<close>

lemma invoked_append: "invoked (xs @ ys) = invoked xs @ invoked ys"
  by (induction xs rule: invoked.induct) simp_all

lemma valid_price_cases:
  "valid_price x = (x = PInf \<or> (\<exists>r. x = Fin r \<and> 0 < r))"
  by (cases x) (simp_all add: valid_price_def js_gt_def)

lemma not_le_zero: "\<not> js_isNaN x \<Longrightarrow> \<not> js_le x (Fin 0) \<Longrightarrow> valid_price x"
  by (cases x) (auto simp: valid_price_def js_gt_def js_le_def)

lemma positive_valid: "positive x \<Longrightarrow> valid_price x"
  by (cases x) (auto simp: valid_price_def positive_def)

lemma multi_valid:
  assumes "getYeiMultiOraclePrice addrs ticker rd clock = (Some q, e)"
  shows "valid_price (price q)"
proof -
  from assms obtain a p ts d where
    rd: "rd = Returned (p, ts, d)" and nz: "p \<noteq> 0"
    and q: "price q = js_div (js_Number (uint p)) (js_pow10 (uint d))"
    by (auto simp: getYeiMultiOraclePrice_def Let_def split: option.splits rpc.splits if_splits)
  have pr: "price q = Fin (real_of_int (uint p) / 10 ^ unat d)"
    unfolding q js_Number_uint256 js_pow10_uint8 using scaled_in_range [OF nz, of d] by simp
  have "0 < real_of_int (uint p)" using real_uint_ge1 [OF nz] by linarith
  then have "0 < real_of_int (uint p) / 10 ^ unat d" by simp
  then show ?thesis unfolding pr valid_price_cases by blast
qed

lemma gecko_valid:
  "getCoinGeckoPrice ticker resp clock = Some q \<Longrightarrow> valid_price (price q)"
  by (auto simp: getCoinGeckoPrice_def not_le_zero split: option.splits fetched.splits if_splits)

lemma cex_valid:
  "getCexPrice ticker resp clock = Some q \<Longrightarrow> valid_price (price q)"
  by (auto simp: getCexPrice_def not_le_zero split: option.splits fetched.splits if_splits)

lemma pyth_valid:
  "getPythPrice ticker rd = Some q \<Longrightarrow> valid_price (price q)"
  by (auto simp: getPythPrice_def Let_def not_le_zero split: option.splits rpc.splits if_splits)

lemma legacy_valid:
  "yeiLegacyStep ticker w = (Some q, e) \<Longrightarrow> valid_price (price q)"
  by (auto simp: yeiLegacyStep_def positive_valid split: if_splits prod.splits sum.splits)

lemma legacy_invoked:
  "invoked (snd (yeiLegacyStep ticker w)) =
     (if toUpperCase ticker \<in> set yeiSupportedSymbols then [GetYeiPrice] else [])"
  by (auto simp: yeiLegacyStep_def split: prod.splits sum.splits)

lemma legacy_not_listed:
  "toUpperCase ticker \<notin> set yeiSupportedSymbols \<Longrightarrow> fst (yeiLegacyStep ticker w) = None"
  by (simp add: yeiLegacyStep_def)

lemma answer_valid: "answer addrs ticker w m = Some q \<Longrightarrow> valid_price (price q)"
proof (cases m)
  case GetYeiMultiOraclePrice
  assume "answer addrs ticker w m = Some q"
  with GetYeiMultiOraclePrice show ?thesis
    using multi_valid [of addrs ticker "multi_read w" "multi_now w" q]
    by (cases "getYeiMultiOraclePrice addrs ticker (multi_read w) (multi_now w)") simp
next
  case GetYeiPrice
  assume "answer addrs ticker w m = Some q"
  with GetYeiPrice show ?thesis
    using legacy_valid [of ticker w q]
    by (cases "yeiLegacyStep ticker w") simp
qed (auto dest: gecko_valid pyth_valid cex_valid)

lemma cascade_first_success:
  "fst (cascade addrs ticker w) = fst (first_success (answer addrs ticker w) (priority ticker))
   \<and> invoked (snd (cascade addrs ticker w)) = snd (first_success (answer addrs ticker w) (priority ticker))"
proof -
  obtain p1 e1 where a1: "getYeiMultiOraclePrice addrs ticker (multi_read w) (multi_now w) = (p1, e1)"
    by (cases "getYeiMultiOraclePrice addrs ticker (multi_read w) (multi_now w)")
  obtain p3 e3 where a3: "yeiLegacyStep ticker w = (p3, e3)"
    by (cases "yeiLegacyStep ticker w")
  have i3: "invoked e3 = (if toUpperCase ticker \<in> set yeiSupportedSymbols then [GetYeiPrice] else [])"
    using legacy_invoked [of ticker w] a3 by simp
  have n3: "toUpperCase ticker \<notin> set yeiSupportedSymbols \<Longrightarrow> p3 = None"
    using legacy_not_listed [of ticker w] a3 by simp
  show ?thesis
    using n3
    by (auto simp: cascade_def priority_def a1 a3 i3 Let_def invoked_append split: option.splits)
qed


lemma first_success_Some:
  "fst (first_success f ms) = Some q \<Longrightarrow> \<exists>m. f m = Some q"
  by (induction ms) (auto split: option.splits prod.splits)

lemma cascade_valid:
  assumes "fst (cascade addrs ticker w) = Some q"
  shows "valid_price (price q)"
proof -
  from assms have "fst (first_success (answer addrs ticker w) (priority ticker)) = Some q"
    using cascade_first_success [of addrs ticker w] by simp
  then have "\<exists>m. answer addrs ticker w m = Some q"
    by (rule first_success_Some)
  then obtain m where "answer addrs ticker w m = Some q" by blast
  then show ?thesis by (rule answer_valid)
qed

lemma getPrice_miss:
  assumes "price_cache_miss s ticker w"
  shows "getPrice s ticker w =
     (case fst (cascade (yeiMultiOracleAddresses s) ticker w) of
        Some q \<Rightarrow> (Some q, s\<lparr>priceCache := (priceCache s)(ticker \<mapsto> q)\<rparr>,
                   snd (cascade (yeiMultiOracleAddresses s) ticker w))
      | None \<Rightarrow> (None, s, snd (cascade (yeiMultiOracleAddresses s) ticker w)))"
proof (cases "cascade (yeiMultiOracleAddresses s) ticker w")
  case (Pair found evs)
  have miss: "(case priceCache s ticker of
                 Some cached \<Rightarrow> if fresh (now_check w) (timestamp cached) then Some cached else None
               | None \<Rightarrow> None) = None"
    using assms by (auto simp: price_cache_miss_def split: option.splits)
  show ?thesis
  proof (cases found)
    case None
    with Pair miss show ?thesis by (simp add: getPrice_def)
  next
    case (Some q)
    with Pair have "valid_price (price q)"
      using cascade_valid [of "yeiMultiOracleAddresses s" ticker w q] by simp
    with Some Pair miss show ?thesis by (simp add: getPrice_def valid_price_def)
  qed
qed

lemma gecko_btc:
  "0 < x \<Longrightarrow> getCoinGeckoPrice ''BTC'' (Json (Some (Fin x))) clock =
     Some \<lparr>symbol = ''BTC'', price = Fin x, timestamp = Date_now clock,
           source = ''CoinGecko'', confidence = Fin 0.95\<rparr>"
  by (simp add: getCoinGeckoPrice_def coinGeckoIds_def js_le_def)

lemma multi_zero:
  "fst (getYeiMultiOraclePrice addrs ticker (Returned (0, ts, d)) clock) = None"
  by (simp add: getYeiMultiOraclePrice_def split: option.splits)

text \<open>
  Claim C1. When the cache holds no usable entry for the symbol, \<open>getPrice\<close> behaves as
  "try the adapters in the fixed order multi-oracle, CoinGecko, legacy cascade, Pyth,
  Binance and stop at the first one that yields a quote": it returns the quote of the first
  adapter that yields one, and the adapters it invokes are exactly those up to and including
  that one, in this order (the legacy cascade being in the order only for a symbol of its
  allow-list). Every quote an adapter yields passes the source's validity test, so the first
  quote is the first valid quote. In particular, when the multi-oracle contract returns the
  price zero and CoinGecko returns 65000.5 for BTC, the result is the CoinGecko quote with
  price 65000.5, source CoinGecko and confidence 0.95, and no later adapter is invoked.
\<close>

theorem cascade_priority_order:
  assumes "price_cache_miss s ticker w"
  shows "fst (getPrice s ticker w) =
           fst (first_success (answer (yeiMultiOracleAddresses s) ticker w) (priority ticker))
       \<and> invoked (snd (snd (getPrice s ticker w))) =
           snd (first_success (answer (yeiMultiOracleAddresses s) ticker w) (priority ticker))
       \<and> (\<forall>m q. answer (yeiMultiOracleAddresses s) ticker w m = Some q \<longrightarrow>
              valid_price (price q))
       \<and> (ticker = ''BTC'' \<and> multi_read w = Returned (0, ts, d)
            \<and> gecko_response w = Json (Some (Fin 65000.5)) \<longrightarrow>
          fst (getPrice s ticker w) =
            Some \<lparr>symbol = ''BTC'', price = Fin 65000.5, timestamp = Date_now (gecko_now w),
                  source = ''CoinGecko'', confidence = Fin 0.95\<rparr>
          \<and> invoked (snd (snd (getPrice s ticker w))) = [GetYeiMultiOraclePrice, GetCoinGeckoPrice])"
proof -
  let ?c = "cascade (yeiMultiOracleAddresses s) ticker w"
  let ?f = "first_success (answer (yeiMultiOracleAddresses s) ticker w) (priority ticker)"
  have r: "fst (getPrice s ticker w) = fst ?c"
    unfolding getPrice_miss [OF assms] by (simp split: option.splits)
  have e: "snd (snd (getPrice s ticker w)) = snd ?c"
    unfolding getPrice_miss [OF assms] by (simp split: option.splits)
  have cf: "fst ?c = fst ?f" "invoked (snd ?c) = snd ?f"
    using cascade_first_success [of "yeiMultiOracleAddresses s" ticker w] by simp_all
  have ex: "fst ?f = Some \<lparr>symbol = ''BTC'', price = Fin 65000.5, timestamp = Date_now (gecko_now w),
                  source = ''CoinGecko'', confidence = Fin 0.95\<rparr>
            \<and> snd ?f = [GetYeiMultiOraclePrice, GetCoinGeckoPrice]"
    if "ticker = ''BTC''" "multi_read w = Returned (0, ts, d)"
       "gecko_response w = Json (Some (Fin 65000.5))"
    using that by (simp add: priority_def multi_zero gecko_btc)
  have v: "\<forall>m q. answer (yeiMultiOracleAddresses s) ticker w m = Some q \<longrightarrow>
              valid_price (price q)"
    using answer_valid by blast
  show ?thesis unfolding r e cf using ex v by blast
qed


theorem cascade_priority_order_witness:
  "price_cache_miss (new_provider example_addresses) ''BTC'' btc_scenario
   \<and> fst (getPrice (new_provider example_addresses) ''BTC'' btc_scenario) =
       Some \<lparr>symbol = ''BTC'', price = Fin 65000.5, timestamp = Fin 1700000000000,
             source = ''CoinGecko'', confidence = Fin 0.95\<rparr>
   \<and> invoked (snd (snd (getPrice (new_provider example_addresses) ''BTC'' btc_scenario))) =
       [GetYeiMultiOraclePrice, GetCoinGeckoPrice]"
proof -
  have m: "price_cache_miss (new_provider example_addresses) ''BTC'' btc_scenario"
    by (simp add: price_cache_miss_def new_provider_def)
  have a: "multi_read btc_scenario = Returned (0, 1699999990, 8)"
    and b: "gecko_response btc_scenario = Json (Some (Fin 65000.5))"
    and c: "gecko_now btc_scenario = 1700000000000"
    by (simp_all add: btc_scenario_def all_down_def)
  show ?thesis
    using m a b c
      cascade_priority_order [OF m, of 1699999990 8, THEN conjunct2, THEN conjunct2, THEN conjunct2]
    by (simp add: Date_now_def)
qed

section \<open>Facts about the caches\<close>

lemma getPrice_hit:
  assumes "priceCache s ticker = Some q" and "fresh (now_check w) (timestamp q)"
  shows "getPrice s ticker w = (Some q, s, [])"
  using assms by (simp add: getPrice_def)

lemma getPrice_state:
  "fst (snd (getPrice s ticker w)) =
     (case fst (getPrice s ticker w) of
        None \<Rightarrow> s
      | Some q \<Rightarrow> if price_cache_miss s ticker w then s\<lparr>priceCache := (priceCache s)(ticker \<mapsto> q)\<rparr> else s)"
proof (cases "price_cache_miss s ticker w")
  case True
  show ?thesis unfolding getPrice_miss [OF True] using True by (simp split: option.splits)
next
  case False
  then obtain q where "priceCache s ticker = Some q" "fresh (now_check w) (timestamp q)"
    by (auto simp: price_cache_miss_def split: option.splits)
  then show ?thesis using False by (simp add: getPrice_hit)
qed

lemma getFundingRates_hit:
  assumes "fundingRateCache s ticker = Some (c # cs)" and "fresh (funding_now_check w) (fr_timestamp c)"
  shows "getFundingRates s ticker w = (c # cs, s, [])"
  using assms by (simp add: getFundingRates_def)

lemma getFundingRates_miss:
  assumes "funding_cache_miss s ticker w"
  shows "getFundingRates s ticker w =
     (validRates ticker w,
      if validRates ticker w \<noteq> []
      then s\<lparr>fundingRateCache := (fundingRateCache s)(ticker \<mapsto> validRates ticker w)\<rparr> else s,
      [Call GetBinanceFundingRate [], Call GetBybitFundingRate [], Call GetOkxFundingRate []])"
proof -
  have miss: "(case fundingRateCache s ticker of
              Some (c # cs) \<Rightarrow>
                if fresh (funding_now_check w) (fr_timestamp c) then Some (c # cs) else None
            | Some [] \<Rightarrow> None
            | None \<Rightarrow> None) = None"
    using assms by (auto simp: funding_cache_miss_def split: option.splits list.splits)
  show ?thesis unfolding getFundingRates_def miss by (simp add: Let_def validRates_def)
qed

lemma funding_hit_or_miss:
  "funding_cache_miss s ticker w \<or>
   (\<exists>c cs. fundingRateCache s ticker = Some (c # cs) \<and> fresh (funding_now_check w) (fr_timestamp c))"
  by (auto simp: funding_cache_miss_def split: option.splits list.splits)

lemmas adapter_defs =
  getYeiMultiOraclePrice_def oracle_address_def getCoinGeckoPrice_def coinGeckoIds_def
  yeiLegacyStep_def yeiSupportedSymbols_def getYeiPrice_def getAPI3Price_def getAPI3dApiId_def
  dApiIds_def getPythPrice_def pythPriceFeeds_def getRedstonePrice_def getCexPrice_def
  cexSupportedSymbols_def positive_def js_Number_def js_pow10_def js_of_real_def js_gt_def
  js_le_def Date_now_def Let_def

lemmas funding_defs =
  validRates_def getBinanceFundingRate_def getBybitFundingRate_def getOkxFundingRate_def
  List.map_filter_simps

lemma all_down_price:
  "getPrice (new_provider example_addresses) ''BTC'' all_down =
     (None, new_provider example_addresses,
      [Call GetYeiMultiOraclePrice [], Call GetCoinGeckoPrice [],
       Call GetYeiPrice [Call GetAPI3Price [], Call GetPythPrice [], Call GetRedstonePrice []],
       Warned Legacy_oracle_failed, Call GetPythPrice [], Call GetCexPrice []])"
  by (simp add: getPrice_def cascade_def new_provider_def example_addresses_def all_down_def
      adapter_defs)

lemma all_down_funding: "validRates ''BTC'' funding_all_down = []"
  by (simp add: funding_defs funding_all_down_def)

text \<open>
  Claim C10. A resolution that fails leaves the provider, and so both caches with all their
  entries, as it was: when \<open>getPrice\<close> returns null the provider afterwards is the
  provider before, and when no exchange result survives (or \<open>getFundingRates\<close> returns
  the empty list) the provider afterwards is the provider before. Conversely, a call that
  changes the provider has fetched successfully: \<open>getPrice\<close> returned the quote the
  cascade found and stored exactly that quote under the symbol; \<open>getFundingRates\<close>
  returned the non-empty list of survivors and stored exactly that list under the symbol.
\<close>

theorem failed_resolution_keeps_caches:
  "(fst (getPrice s ticker w) = None \<longrightarrow> fst (snd (getPrice s ticker w)) = s)
   \<and> (fst (snd (getPrice s ticker w)) \<noteq> s \<longrightarrow>
        (\<exists>q. fst (getPrice s ticker w) = Some q
             \<and> fst (cascade (yeiMultiOracleAddresses s) ticker w) = Some q
             \<and> fst (snd (getPrice s ticker w)) = s\<lparr>priceCache := (priceCache s)(ticker \<mapsto> q)\<rparr>))
   \<and> (validRates ticker fw = [] \<longrightarrow> fst (snd (getFundingRates s ticker fw)) = s)
   \<and> (fst (getFundingRates s ticker fw) = [] \<longrightarrow> fst (snd (getFundingRates s ticker fw)) = s)
   \<and> (fst (snd (getFundingRates s ticker fw)) \<noteq> s \<longrightarrow>
        validRates ticker fw \<noteq> []
        \<and> fst (getFundingRates s ticker fw) = validRates ticker fw
        \<and> fst (snd (getFundingRates s ticker fw)) =
            s\<lparr>fundingRateCache := (fundingRateCache s)(ticker \<mapsto> validRates ticker fw)\<rparr>)"
proof -
  have p1: "fst (getPrice s ticker w) = None \<longrightarrow> fst (snd (getPrice s ticker w)) = s"
    using getPrice_state [of s ticker w] by (simp split: option.splits)
  have p2: "fst (snd (getPrice s ticker w)) \<noteq> s \<longrightarrow>
        (\<exists>q. fst (getPrice s ticker w) = Some q
             \<and> fst (cascade (yeiMultiOracleAddresses s) ticker w) = Some q
             \<and> fst (snd (getPrice s ticker w)) = s\<lparr>priceCache := (priceCache s)(ticker \<mapsto> q)\<rparr>)"
  proof (cases "price_cache_miss s ticker w")
    case True
    show ?thesis unfolding getPrice_miss [OF True] by (simp split: option.splits)
  next
    case False
    then show ?thesis using getPrice_state [of s ticker w] by (simp split: option.splits)
  qed
  have f: "fst (snd (getFundingRates s ticker fw)) =
             (if funding_cache_miss s ticker fw \<and> validRates ticker fw \<noteq> []
              then s\<lparr>fundingRateCache := (fundingRateCache s)(ticker \<mapsto> validRates ticker fw)\<rparr>
              else s)"
    using funding_hit_or_miss [of s ticker fw]
    by (auto simp: getFundingRates_miss getFundingRates_hit)
  have g: "funding_cache_miss s ticker fw \<Longrightarrow> fst (getFundingRates s ticker fw) = validRates ticker fw"
    by (simp add: getFundingRates_miss)
  have h: "\<not> funding_cache_miss s ticker fw \<Longrightarrow> fst (getFundingRates s ticker fw) \<noteq> []"
    using funding_hit_or_miss [of s ticker fw] by (auto simp: getFundingRates_hit)
  have f1: "validRates ticker fw = [] \<longrightarrow> fst (snd (getFundingRates s ticker fw)) = s"
    unfolding f by simp
  have f2: "fst (getFundingRates s ticker fw) = [] \<longrightarrow> fst (snd (getFundingRates s ticker fw)) = s"
    unfolding f using g h by auto
  have f3: "fst (snd (getFundingRates s ticker fw)) \<noteq> s \<longrightarrow>
        validRates ticker fw \<noteq> []
        \<and> fst (getFundingRates s ticker fw) = validRates ticker fw
        \<and> fst (snd (getFundingRates s ticker fw)) =
            s\<lparr>fundingRateCache := (fundingRateCache s)(ticker \<mapsto> validRates ticker fw)\<rparr>"
    unfolding f using g by auto
  from p1 p2 f1 f2 f3 show ?thesis by blast
qed

theorem failed_resolution_keeps_caches_witness:
  "fst (getPrice (new_provider example_addresses) ''BTC'' all_down) = None
   \<and> fst (snd (getPrice (new_provider example_addresses) ''BTC'' all_down)) =
       new_provider example_addresses
   \<and> validRates ''BTC'' funding_all_down = []
   \<and> fst (snd (getFundingRates (new_provider example_addresses) ''BTC'' funding_all_down)) =
       new_provider example_addresses"
  using failed_resolution_keeps_caches
    [of "new_provider example_addresses" "''BTC''" all_down funding_all_down]
    all_down_price all_down_funding
  by simp

section \<open>The funding-rate fan-out\<close>

text \<open>
  Claim C4. When \<open>getFundingRates\<close> does not answer from the cache it invokes all three
  exchange adapters (Binance, Bybit, OKX) whatever any of them answers, so the requests are
  a fan-out and not a cascade, and it returns the entries of the adapters that answered, in
  this order. If one exchange fails and the other two succeed, the list is exactly the two
  surviving entries, each with the rate the exchange reported multiplied by 8760. The
  interleaving of the three requests in time is outside the model.
\<close>

theorem funding_fan_out:
  assumes "funding_cache_miss s ticker w"
  shows "invoked (snd (snd (getFundingRates s ticker w))) =
           [GetBinanceFundingRate, GetBybitFundingRate, GetOkxFundingRate]
       \<and> fst (getFundingRates s ticker w) = validRates ticker w
       \<and> (\<forall>a na c tc nc rest.
            binance_funding w = Json (Some (a, na))
            \<and> getBybitFundingRate ticker (bybit_funding w) (bybit_now w) = None
            \<and> okx_funding w = Json (Some ((c, tc, nc) # rest)) \<longrightarrow>
            fst (getFundingRates s ticker w) =
              [\<lparr>fr_symbol = ticker, rate = js_mul a (Fin 8760),
                fr_timestamp = Date_now (binance_now w), exchange = ''Binance'',
                nextFundingTime = na\<rparr>,
               \<lparr>fr_symbol = ticker, rate = js_mul c (Fin 8760),
                fr_timestamp = tc, exchange = ''OKX'', nextFundingTime = nc\<rparr>])
       \<and> (\<forall>b nb rest c tc nc rest'.
            getBinanceFundingRate ticker (binance_funding w) (binance_now w) = None
            \<and> bybit_funding w = Json (Some ((b, nb) # rest))
            \<and> okx_funding w = Json (Some ((c, tc, nc) # rest')) \<longrightarrow>
            fst (getFundingRates s ticker w) =
              [\<lparr>fr_symbol = ticker, rate = js_mul b (Fin 8760),
                fr_timestamp = Date_now (bybit_now w), exchange = ''Bybit'',
                nextFundingTime = nb\<rparr>,
               \<lparr>fr_symbol = ticker, rate = js_mul c (Fin 8760),
                fr_timestamp = tc, exchange = ''OKX'', nextFundingTime = nc\<rparr>])
       \<and> (\<forall>a na b nb rest.
            binance_funding w = Json (Some (a, na))
            \<and> bybit_funding w = Json (Some ((b, nb) # rest))
            \<and> getOkxFundingRate ticker (okx_funding w) = None \<longrightarrow>
            fst (getFundingRates s ticker w) =
              [\<lparr>fr_symbol = ticker, rate = js_mul a (Fin 8760),
                fr_timestamp = Date_now (binance_now w), exchange = ''Binance'',
                nextFundingTime = na\<rparr>,
               \<lparr>fr_symbol = ticker, rate = js_mul b (Fin 8760),
                fr_timestamp = Date_now (bybit_now w), exchange = ''Bybit'',
                nextFundingTime = nb\<rparr>])"
  unfolding getFundingRates_miss [OF assms]
  by (simp add: funding_defs)

theorem funding_fan_out_witness:
  "funding_cache_miss (new_provider example_addresses) ''BTC'' bybit_down
   \<and> invoked (snd (snd (getFundingRates (new_provider example_addresses) ''BTC'' bybit_down))) =
       [GetBinanceFundingRate, GetBybitFundingRate, GetOkxFundingRate]
   \<and> fst (getFundingRates (new_provider example_addresses) ''BTC'' bybit_down) =
       [\<lparr>fr_symbol = ''BTC'', rate = Fin 0.876, fr_timestamp = Fin 1700000000000,
         exchange = ''Binance'', nextFundingTime = Fin 1700003600000\<rparr>,
        \<lparr>fr_symbol = ''BTC'', rate = Fin (- 1.752), fr_timestamp = Fin 1699999200000,
         exchange = ''OKX'', nextFundingTime = Fin 1700028000000\<rparr>]"
proof -
  have m: "funding_cache_miss (new_provider example_addresses) ''BTC'' bybit_down"
    by (simp add: funding_cache_miss_def new_provider_def)
  have b: "binance_funding bybit_down = Json (Some (Fin 0.0001, Fin 1700003600000))"
    and y: "getBybitFundingRate ''BTC'' (bybit_funding bybit_down) (bybit_now bybit_down) = None"
    and k: "okx_funding bybit_down = Json (Some [(Fin (- 0.0002), Fin 1699999200000, Fin 1700028000000)])"
    and n: "binance_now bybit_down = 1700000000000"
    by (simp_all add: bybit_down_def funding_all_down_def getBybitFundingRate_def)
  have r: "js_mul (Fin 0.0001) (Fin 8760) = Fin 0.876" "js_mul (Fin (- 0.0002)) (Fin 8760) = Fin (- 1.752)"
    by (simp_all add: js_of_real_def)
  from funding_fan_out [OF m] have
    i: "invoked (snd (snd (getFundingRates (new_provider example_addresses) ''BTC'' bybit_down))) =
       [GetBinanceFundingRate, GetBybitFundingRate, GetOkxFundingRate]"
    and s: "\<forall>a na c tc nc rest.
            binance_funding bybit_down = Json (Some (a, na))
            \<and> getBybitFundingRate ''BTC'' (bybit_funding bybit_down) (bybit_now bybit_down) = None
            \<and> okx_funding bybit_down = Json (Some ((c, tc, nc) # rest)) \<longrightarrow>
            fst (getFundingRates (new_provider example_addresses) ''BTC'' bybit_down) =
              [\<lparr>fr_symbol = ''BTC'', rate = js_mul a (Fin 8760),
                fr_timestamp = Date_now (binance_now bybit_down), exchange = ''Binance'',
                nextFundingTime = na\<rparr>,
               \<lparr>fr_symbol = ''BTC'', rate = js_mul c (Fin 8760),
                fr_timestamp = tc, exchange = ''OKX'', nextFundingTime = nc\<rparr>]"
    by blast+
  from s b y k have
    "fst (getFundingRates (new_provider example_addresses) ''BTC'' bybit_down) =
              [\<lparr>fr_symbol = ''BTC'', rate = js_mul (Fin 0.0001) (Fin 8760),
                fr_timestamp = Date_now (binance_now bybit_down), exchange = ''Binance'',
                nextFundingTime = Fin 1700003600000\<rparr>,
               \<lparr>fr_symbol = ''BTC'', rate = js_mul (Fin (- 0.0002)) (Fin 8760),
                fr_timestamp = Fin 1699999200000, exchange = ''OKX'',
                nextFundingTime = Fin 1700028000000\<rparr>]"
    by blast
  with m i show ?thesis unfolding r n Date_now_def by simp
qed

section \<open>The cache window\<close>

lemma cacheWindow_eq: "cacheWindow = Fin 30000"
  by (simp add: cacheWindow_def js_of_real_def)

lemma fresh_Fin: "fresh clock (Fin t) = (real_of_int clock - t < 30000)"
  unfolding fresh_def cacheWindow_eq Date_now_def js_sub.simps
  by (rule js_lt_of_real) simp_all

lemma fresh_NaN: "\<not> fresh clock NaN"
  by (simp add: fresh_def Date_now_def)

lemma stale_first_call:
  "getPrice (new_provider example_addresses) ''SEI'' stale_observation =
     (Some sei_quote,
      (new_provider example_addresses)\<lparr>priceCache := [''SEI'' \<mapsto> sei_quote]\<rparr>,
      [Call GetYeiMultiOraclePrice []])"
  by (simp add: getPrice_def cascade_def new_provider_def example_addresses_def all_down_def
      stale_observation_def sei_quote_def adapter_defs)

lemma stale_second_call:
  "getPrice ((new_provider example_addresses)\<lparr>priceCache := [''SEI'' \<mapsto> sei_quote]\<rparr>) ''SEI''
      one_second_later =
     (None, (new_provider example_addresses)\<lparr>priceCache := [''SEI'' \<mapsto> sei_quote]\<rparr>,
      [Call GetYeiMultiOraclePrice [], Call GetCoinGeckoPrice [],
       Call GetYeiPrice [Call GetAPI3Price [], Call GetPythPrice [], Call GetRedstonePrice []],
       Warned Legacy_oracle_failed, Call GetPythPrice [], Call GetCexPrice []])"
  by (simp add: getPrice_def cascade_def new_provider_def example_addresses_def all_down_def
      one_second_later_def sei_quote_def fresh_Fin adapter_defs)

lemma invoked_cascade_nonempty: "invoked (snd (cascade addrs ticker w)) \<noteq> []"
  using cascade_first_success [of addrs ticker w]
  by (simp add: priority_def split: option.splits prod.splits)

text \<open>
  The window is not measured from the insertion. At clock reading 1700000000000 the call
  \<open>getPrice\<close> for SEI stores the multi-oracle quote, whose timestamp is the contract's
  observation time 1699999940000. One second after the insertion the next call does not
  return the stored quote: it runs the whole cascade and, every source being down, returns
  null.
\<close>

theorem cache_window_insertion_counterexample:
  "now_check stale_observation = 1700000000000
   \<and> getPrice (new_provider example_addresses) ''SEI'' stale_observation =
     (Some sei_quote,
      (new_provider example_addresses)\<lparr>priceCache := [''SEI'' \<mapsto> sei_quote]\<rparr>,
      [Call GetYeiMultiOraclePrice []])
   \<and> now_check one_second_later = 1700000001000
   \<and> getPrice ((new_provider example_addresses)\<lparr>priceCache := [''SEI'' \<mapsto> sei_quote]\<rparr>) ''SEI''
      one_second_later =
     (None, (new_provider example_addresses)\<lparr>priceCache := [''SEI'' \<mapsto> sei_quote]\<rparr>,
      [Call GetYeiMultiOraclePrice [], Call GetCoinGeckoPrice [],
       Call GetYeiPrice [Call GetAPI3Price [], Call GetPythPrice [], Call GetRedstonePrice []],
       Warned Legacy_oracle_failed, Call GetPythPrice [], Call GetCexPrice []])"
  using stale_first_call stale_second_call
  by (simp add: stale_observation_def one_second_later_def all_down_def)

text \<open>
  Claim C3, as amended. The validity of a cache entry for reads is measured from the
  timestamp field of the cached quote, with a window of 30 seconds: a \<open>getPrice\<close> call
  whose clock reading is less than 30000 ms after that timestamp returns the cached quote,
  leaves the provider alone and invokes no adapter; any other call with an entry in the cache
  treats it as a miss and runs the cascade. A cached funding-rate list follows the same
  window, measured from the timestamp field of its first entry. For a finite timestamp the
  test is \<open>clock - timestamp < 30000\<close>, and an entry whose timestamp is NaN is never
  served.
\<close>

theorem cache_window_from_timestamp:
  "(priceCache s ticker = Some q \<and> fresh (now_check w) (timestamp q) \<longrightarrow>
      getPrice s ticker w = (Some q, s, []))
   \<and> (priceCache s ticker = Some q \<and> \<not> fresh (now_check w) (timestamp q) \<longrightarrow>
      fst (getPrice s ticker w) = fst (cascade (yeiMultiOracleAddresses s) ticker w)
      \<and> snd (snd (getPrice s ticker w)) = snd (cascade (yeiMultiOracleAddresses s) ticker w)
      \<and> invoked (snd (snd (getPrice s ticker w))) \<noteq> [])
   \<and> (fundingRateCache s ticker = Some (c # cs) \<and> fresh (funding_now_check fw) (fr_timestamp c) \<longrightarrow>
      getFundingRates s ticker fw = (c # cs, s, []))
   \<and> (fundingRateCache s ticker = Some (c # cs) \<and> \<not> fresh (funding_now_check fw) (fr_timestamp c) \<longrightarrow>
      fst (getFundingRates s ticker fw) = validRates ticker fw
      \<and> invoked (snd (snd (getFundingRates s ticker fw))) =
          [GetBinanceFundingRate, GetBybitFundingRate, GetOkxFundingRate])
   \<and> fresh clock (Fin t) = (real_of_int clock - t < 30000)
   \<and> \<not> fresh clock NaN"
proof -
  have a: "getPrice s ticker w = (Some q, s, [])"
    if "priceCache s ticker = Some q" "fresh (now_check w) (timestamp q)"
    using that by (rule getPrice_hit)
  have b: "fst (getPrice s ticker w) = fst (cascade (yeiMultiOracleAddresses s) ticker w)
      \<and> snd (snd (getPrice s ticker w)) = snd (cascade (yeiMultiOracleAddresses s) ticker w)
      \<and> invoked (snd (snd (getPrice s ticker w))) \<noteq> []"
    if "priceCache s ticker = Some q" "\<not> fresh (now_check w) (timestamp q)"
  proof -
    from that have m: "price_cache_miss s ticker w" by (simp add: price_cache_miss_def)
    show ?thesis unfolding getPrice_miss [OF m]
      using invoked_cascade_nonempty [of "yeiMultiOracleAddresses s" ticker w]
      by (simp split: option.splits)
  qed
  have c: "getFundingRates s ticker fw = (c # cs, s, [])"
    if "fundingRateCache s ticker = Some (c # cs)" "fresh (funding_now_check fw) (fr_timestamp c)"
    using that by (rule getFundingRates_hit)
  have d: "fst (getFundingRates s ticker fw) = validRates ticker fw
      \<and> invoked (snd (snd (getFundingRates s ticker fw))) =
          [GetBinanceFundingRate, GetBybitFundingRate, GetOkxFundingRate]"
    if "fundingRateCache s ticker = Some (c # cs)" "\<not> fresh (funding_now_check fw) (fr_timestamp c)"
  proof -
    from that have m: "funding_cache_miss s ticker fw" by (simp add: funding_cache_miss_def)
    show ?thesis unfolding getFundingRates_miss [OF m] by simp
  qed
  from a b c d fresh_Fin [of clock t] fresh_NaN [of clock] show ?thesis by blast
qed

theorem cache_window_from_timestamp_witness:
  "priceCache ((new_provider example_addresses)\<lparr>priceCache := [''SEI'' \<mapsto> sei_quote]\<rparr>) ''SEI'' = Some sei_quote
   \<and> fresh (now_check (all_down\<lparr>now_check := 1699999950000\<rparr>)) (timestamp sei_quote)
   \<and> getPrice ((new_provider example_addresses)\<lparr>priceCache := [''SEI'' \<mapsto> sei_quote]\<rparr>) ''SEI''
        (all_down\<lparr>now_check := 1699999950000\<rparr>) =
       (Some sei_quote, (new_provider example_addresses)\<lparr>priceCache := [''SEI'' \<mapsto> sei_quote]\<rparr>, [])
   \<and> \<not> fresh (now_check one_second_later) (timestamp sei_quote)
   \<and> invoked (snd (snd (getPrice ((new_provider example_addresses)\<lparr>priceCache := [''SEI'' \<mapsto> sei_quote]\<rparr>)
        ''SEI'' one_second_later))) \<noteq> []"
proof -
  let ?s = "(new_provider example_addresses)\<lparr>priceCache := [''SEI'' \<mapsto> sei_quote]\<rparr>"
  have p: "priceCache ?s ''SEI'' = Some sei_quote" by simp
  have f: "fresh (now_check (all_down\<lparr>now_check := 1699999950000\<rparr>)) (timestamp sei_quote)"
    by (simp add: sei_quote_def fresh_Fin)
  have g: "\<not> fresh (now_check one_second_later) (timestamp sei_quote)"
    by (simp add: sei_quote_def fresh_Fin one_second_later_def)
  from cache_window_from_timestamp
    [of ?s "''SEI''" sei_quote "all_down\<lparr>now_check := 1699999950000\<rparr>"] p f
  have h: "getPrice ?s ''SEI'' (all_down\<lparr>now_check := 1699999950000\<rparr>) = (Some sei_quote, ?s, [])"
    by blast
  from cache_window_from_timestamp [of ?s "''SEI''" sei_quote one_second_later] p g
  have i: "invoked (snd (snd (getPrice ?s ''SEI'' one_second_later))) \<noteq> []"
    by blast
  from p f g h i show ?thesis by blast
qed

section \<open>Validity of cached and returned quotes\<close>

lemma getPrice_result_valid:
  assumes "cache_valid s" and "fst (getPrice s ticker w) = Some q"
  shows "valid_price (price q)"
proof (cases "price_cache_miss s ticker w")
  case True
  with assms(2) have "fst (cascade (yeiMultiOracleAddresses s) ticker w) = Some q"
    by (simp add: getPrice_miss split: option.splits)
  then show ?thesis by (rule cascade_valid)
next
  case False
  then obtain c where c: "priceCache s ticker = Some c" "fresh (now_check w) (timestamp c)"
    by (auto simp: price_cache_miss_def split: option.splits)
  with assms(2) have "c = q" by (simp add: getPrice_hit)
  with c(1) assms(1) show ?thesis by (simp add: cache_valid_def)
qed

lemma getPrice_cache_valid:
  assumes "cache_valid s"
  shows "cache_valid (fst (snd (getPrice s ticker w)))"
proof (cases "fst (getPrice s ticker w)")
  case None
  with assms show ?thesis by (simp add: getPrice_state)
next
  case (Some q)
  with assms have "valid_price (price q)" by (auto intro: getPrice_result_valid)
  with assms Some show ?thesis by (simp add: getPrice_state cache_valid_def)
qed

lemma getFundingRates_priceCache:
  "priceCache (fst (snd (getFundingRates s ticker w))) = priceCache s"
  using funding_hit_or_miss [of s ticker w]
  by (auto simp: getFundingRates_miss getFundingRates_hit)

lemma getFundingRates_cache_valid:
  "cache_valid s \<Longrightarrow> cache_valid (fst (snd (getFundingRates s ticker w)))"
  by (simp add: cache_valid_def getFundingRates_priceCache)

lemma refreshPrices_cache_valid:
  "cache_valid s \<Longrightarrow> cache_valid (fst (refreshPrices s xs pw))"
proof (induction xs arbitrary: s)
  case Nil
  then show ?case by simp
next
  case (Cons x xs)
  from Cons.prems have "cache_valid (fst (snd (getPrice s x (pw x))))"
    by (rule getPrice_cache_valid)
  from Cons.IH [OF this] show ?case by (auto split: prod.splits)
qed

lemma refreshFunding_cache_valid:
  "cache_valid s \<Longrightarrow> cache_valid (fst (refreshFunding s xs fw))"
proof (induction xs arbitrary: s)
  case Nil
  then show ?case by simp
next
  case (Cons x xs)
  from Cons.prems have "cache_valid (fst (snd (getFundingRates s x (fw x))))"
    by (rule getFundingRates_cache_valid)
  from Cons.IH [OF this] show ?case by (auto split: prod.splits)
qed

lemma tick_cache_valid: "cache_valid s \<Longrightarrow> cache_valid (fst (tick s tw))"
  using refreshFunding_cache_valid [OF refreshPrices_cache_valid, of s refreshSymbols "tick_prices tw" refreshSymbols "tick_funding tw"]
  by (auto simp: tick_def split: prod.splits)

lemma fire_cache_valid: "cache_valid s \<Longrightarrow> cache_valid (fst (fire hs s tw))"
proof (induction hs arbitrary: s)
  case Nil
  then show ?case by simp
next
  case (Cons h hs)
  from Cons.prems have "cache_valid (fst (tick s (tw h)))" by (rule tick_cache_valid)
  from Cons.IH [OF this] show ?case by (auto split: prod.splits)
qed

lemma perform_cache_valid:
  assumes "cache_valid (prov r)"
  shows "cache_valid (prov (fst (perform r a)))"
proof (cases a)
  case Start
  with assms show ?thesis
    by (simp add: startPriceUpdates_def cache_valid_def split: option.splits)
next
  case Stop
  with assms show ?thesis
    by (simp add: stopPriceUpdates_def cache_valid_def split: option.splits)
next
  case (Period tw)
  with fire_cache_valid [OF assms, of "intervals r" tw] show ?thesis
    by (auto simp: elapse_def split: prod.splits)
next
  case (Price ticker w)
  with getPrice_cache_valid [OF assms, of ticker w] show ?thesis
    by (auto split: prod.splits)
next
  case (Funding ticker w)
  with getFundingRates_cache_valid [OF assms, of ticker w] show ?thesis
    by (auto split: prod.splits)
qed

lemma reachable_cache_valid: "reachable r \<Longrightarrow> cache_valid (prov r)"
proof (induction rule: reachable.induct)
  case (reachable_new addrs)
  show ?case by (simp add: cache_valid_def new_process_def new_provider_def)
next
  case (reachable_perform r a)
  then show ?case by (simp add: perform_cache_valid)
qed

lemma valid_price_iff: "valid_price x = (\<not> js_isNaN x \<and> \<not> js_le x (Fin 0))"
  by (cases x) (auto simp: valid_price_def js_gt_def js_le_def)

text \<open>
  An infinite price is cached and returned: with the multi-oracle down and CoinGecko
  reporting a number that parses to \<^verbatim>\<open>Infinity\<close>, the adapter's tests
  \<^verbatim>\<open>!price\<close>, \<^verbatim>\<open>isNaN(price)\<close> and \<^verbatim>\<open>price <= 0\<close> all fail, the final guard of
  \<open>getPrice\<close> holds, and the quote is stored and returned.
\<close>

theorem infinite_price_counterexample:
  "getPrice (new_provider example_addresses) ''BTC'' infinite_index =
     (Some infinite_quote,
      (new_provider example_addresses)\<lparr>priceCache := [''BTC'' \<mapsto> infinite_quote]\<rparr>,
      [Call GetYeiMultiOraclePrice [], Call GetCoinGeckoPrice []])
   \<and> price infinite_quote = PInf"
  by (simp add: getPrice_def cascade_def new_provider_def example_addresses_def all_down_def
      infinite_index_def infinite_quote_def adapter_defs)

text \<open>
  Claim C2, as amended. In every provider that arises from a new one by any sequence of
  price queries, funding-rate queries, refresh periods, starts and stops, with any answers
  of the sources, no quote in the price cache has a price that is NaN or non-positive
  (\<open>price <= 0\<close>), and no quote returned by \<open>getPrice\<close> has such a price. (A price of
  positive infinity is not excluded.)
\<close>

theorem no_nan_or_nonpositive_price:
  assumes "reachable r"
  shows "(\<forall>ticker q. priceCache (prov r) ticker = Some q \<longrightarrow>
            \<not> js_isNaN (price q) \<and> \<not> js_le (price q) (Fin 0))
       \<and> (\<forall>ticker w q. fst (getPrice (prov r) ticker w) = Some q \<longrightarrow>
            \<not> js_isNaN (price q) \<and> \<not> js_le (price q) (Fin 0))"
proof -
  from assms have v: "cache_valid (prov r)" by (rule reachable_cache_valid)
  then have "\<forall>ticker q. priceCache (prov r) ticker = Some q \<longrightarrow> valid_price (price q)"
    by (simp add: cache_valid_def)
  moreover have "\<forall>ticker w q. fst (getPrice (prov r) ticker w) = Some q \<longrightarrow> valid_price (price q)"
    using getPrice_result_valid [OF v] by blast
  ultimately show ?thesis unfolding valid_price_iff by blast
qed

theorem no_nan_or_nonpositive_price_witness:
  "reachable (fst (perform (new_process example_addresses) (Price ''BTC'' btc_scenario)))
   \<and> priceCache (prov (fst (perform (new_process example_addresses) (Price ''BTC'' btc_scenario)))) ''BTC''
       = Some \<lparr>symbol = ''BTC'', price = Fin 65000.5, timestamp = Fin 1700000000000,
             source = ''CoinGecko'', confidence = Fin 0.95\<rparr>
   \<and> \<not> js_isNaN (Fin 65000.5) \<and> \<not> js_le (Fin 65000.5) (Fin 0)"
proof -
  let ?r = "fst (perform (new_process example_addresses) (Price ''BTC'' btc_scenario))"
  let ?q = "\<lparr>symbol = ''BTC'', price = Fin 65000.5, timestamp = Fin 1700000000000,
             source = ''CoinGecko'', confidence = Fin 0.95\<rparr>"
  have r: "reachable ?r" by (intro reachable.intros)
  have c: "priceCache (prov ?r) ''BTC'' = Some ?q"
    by (simp add: new_process_def getPrice_def cascade_def new_provider_def example_addresses_def
        all_down_def btc_scenario_def adapter_defs)
  from no_nan_or_nonpositive_price [OF r] c
  have "\<not> js_isNaN (price ?q) \<and> \<not> js_le (price ?q) (Fin 0)" by blast
  with r c show ?thesis by simp
qed

section \<open>The refresh timer\<close>

lemma getPrice_updateInterval:
  "updateInterval (fst (snd (getPrice s ticker w))) = updateInterval s"
  by (simp add: getPrice_state split: option.splits)

lemma getFundingRates_updateInterval:
  "updateInterval (fst (snd (getFundingRates s ticker w))) = updateInterval s"
  using funding_hit_or_miss [of s ticker w]
  by (auto simp: getFundingRates_miss getFundingRates_hit)

lemma refreshPrices_updateInterval:
  "updateInterval (fst (refreshPrices s xs pw)) = updateInterval s"
proof (induction xs arbitrary: s)
  case Nil
  show ?case by simp
next
  case (Cons x xs)
  have "updateInterval (fst (refreshPrices (fst (snd (getPrice s x (pw x)))) xs pw)) = updateInterval s"
    by (simp add: Cons.IH getPrice_updateInterval)
  then show ?case by (auto split: prod.splits)
qed

lemma refreshFunding_updateInterval:
  "updateInterval (fst (refreshFunding s xs fw)) = updateInterval s"
proof (induction xs arbitrary: s)
  case Nil
  show ?case by simp
next
  case (Cons x xs)
  have "updateInterval (fst (refreshFunding (fst (snd (getFundingRates s x (fw x)))) xs fw)) = updateInterval s"
    by (simp add: Cons.IH getFundingRates_updateInterval)
  then show ?case by (auto split: prod.splits)
qed

lemma tick_updateInterval: "updateInterval (fst (tick s tw)) = updateInterval s"
proof -
  have "updateInterval (fst (refreshFunding (fst (refreshPrices s refreshSymbols (tick_prices tw)))
          refreshSymbols (tick_funding tw))) = updateInterval s"
    by (simp add: refreshFunding_updateInterval refreshPrices_updateInterval)
  then show ?thesis by (auto simp: tick_def split: prod.splits)
qed

lemma fire_updateInterval: "updateInterval (fst (fire hs s tw)) = updateInterval s"
proof (induction hs arbitrary: s)
  case Nil
  show ?case by simp
next
  case (Cons h hs)
  have "updateInterval (fst (fire hs (fst (tick s (tw h))) tw)) = updateInterval s"
    by (simp add: Cons.IH tick_updateInterval)
  then show ?case by (auto split: prod.splits)
qed

lemma perform_timer_inv:
  assumes "timer_inv r"
  shows "timer_inv (fst (perform r a))"
proof (cases a)
  case Start
  with assms show ?thesis
    by (auto simp: timer_inv_def startPriceUpdates_def split: option.splits)
next
  case Stop
  with assms show ?thesis
    by (auto simp: timer_inv_def stopPriceUpdates_def split: option.splits)
next
  case (Period tw)
  with assms fire_updateInterval [of "intervals r" "prov r" tw] show ?thesis
    by (auto simp: timer_inv_def elapse_def split: prod.splits)
next
  case (Price ticker w)
  with assms getPrice_updateInterval [of "prov r" ticker w] show ?thesis
    by (auto simp: timer_inv_def split: prod.splits)
next
  case (Funding ticker w)
  with assms getFundingRates_updateInterval [of "prov r" ticker w] show ?thesis
    by (auto simp: timer_inv_def split: prod.splits)
qed

lemma reachable_timer_inv: "reachable r \<Longrightarrow> timer_inv r"
proof (induction rule: reachable.induct)
  case (reachable_new addrs)
  show ?case by (simp add: timer_inv_def new_process_def new_provider_def)
next
  case (reachable_perform r a)
  then show ?case by (simp add: perform_timer_inv)
qed

lemma elapse_no_timer: "intervals r = [] \<Longrightarrow> elapse r tw = (r, [])"
  by (simp add: elapse_def)

lemma elapse_all_no_timer: "intervals r = [] \<Longrightarrow> elapse_all r tws = (r, [])"
  by (induction tws) (simp_all add: elapse_no_timer)

lemma stop_clears:
  assumes "timer_inv r"
  shows "intervals (stopPriceUpdates r) = []" and "updateInterval (prov (stopPriceUpdates r)) = None"
  using assms by (auto simp: timer_inv_def stopPriceUpdates_def split: option.splits)

lemma tick_invokes:
  assumes "priceCache s ''BTC'' = None"
  shows "invoked (snd (tick s tw)) \<noteq> []"
proof -
  have m: "price_cache_miss s ''BTC'' (tick_prices tw ''BTC'')"
    using assms by (simp add: price_cache_miss_def)
  have "invoked (snd (snd (getPrice s ''BTC'' (tick_prices tw ''BTC'')))) \<noteq> []"
    unfolding getPrice_miss [OF m]
    using invoked_cascade_nonempty [of "yeiMultiOracleAddresses s" "''BTC''" "tick_prices tw ''BTC''"]
    by (simp split: option.splits)
  then show ?thesis
    by (auto simp: tick_def refreshSymbols_def invoked_append split: prod.splits)
qed

text \<open>
  Claim C9. In every process that arises from a new provider, at most one refresh timer is
  armed. Starting the refresh while it is running (the provider holds a handle) changes
  nothing, and starting twice is the same as starting once. After \<open>stopPriceUpdates\<close> no
  timer is armed, so when a period, or any number of periods, goes by, no refresh tick
  occurs: nothing is invoked and the process stays as it is. A tick is one step of the
  model; what a callback that began before the stop still does is not a later tick.
\<close>

theorem single_timer_and_clean_stop:
  assumes "reachable r"
  shows "length (intervals r) \<le> 1
       \<and> (updateInterval (prov r) \<noteq> None \<longrightarrow> startPriceUpdates r = r)
       \<and> startPriceUpdates (startPriceUpdates r) = startPriceUpdates r
       \<and> length (intervals (startPriceUpdates r)) = 1
       \<and> intervals (stopPriceUpdates r) = []
       \<and> elapse (stopPriceUpdates r) tw = (stopPriceUpdates r, [])
       \<and> elapse_all (stopPriceUpdates r) tws = (stopPriceUpdates r, [])"
proof -
  from assms have i: "timer_inv r" by (rule reachable_timer_inv)
  have a: "length (intervals r) \<le> 1"
    using i by (simp add: timer_inv_def split: option.splits)
  have b: "updateInterval (prov r) \<noteq> None \<longrightarrow> startPriceUpdates r = r"
    by (auto simp: startPriceUpdates_def)
  have c: "startPriceUpdates (startPriceUpdates r) = startPriceUpdates r"
    by (simp add: startPriceUpdates_def split: option.splits)
  have d: "length (intervals (startPriceUpdates r)) = 1"
    using i by (simp add: timer_inv_def startPriceUpdates_def split: option.splits)
  have e: "intervals (stopPriceUpdates r) = []" by (rule stop_clears [OF i])
  from a b c d e elapse_no_timer [OF e] elapse_all_no_timer [OF e] show ?thesis by blast
qed

theorem single_timer_and_clean_stop_witness:
  "reachable (fst (perform (new_process example_addresses) Start))
   \<and> updateInterval (prov (fst (perform (new_process example_addresses) Start))) \<noteq> None
   \<and> startPriceUpdates (fst (perform (new_process example_addresses) Start)) =
       fst (perform (new_process example_addresses) Start)
   \<and> intervals (fst (perform (new_process example_addresses) Start)) = [0]
   \<and> invoked (snd (elapse (fst (perform (new_process example_addresses) Start)) sources_down)) \<noteq> []
   \<and> snd (elapse (stopPriceUpdates (fst (perform (new_process example_addresses) Start))) sources_down) = []"
proof -
  let ?r = "fst (perform (new_process example_addresses) Start)"
  have r: "reachable ?r" by (intro reachable.intros)
  have u: "updateInterval (prov ?r) \<noteq> None" and v: "intervals ?r = [0]"
    by (simp_all add: startPriceUpdates_def new_process_def new_provider_def)
  have p: "prov ?r = (new_provider example_addresses)\<lparr>updateInterval := Some 0\<rparr>"
    by (simp add: startPriceUpdates_def new_process_def new_provider_def)
  have t: "invoked (snd (elapse ?r sources_down)) \<noteq> []"
    unfolding elapse_def v p
    using tick_invokes [of "(new_provider example_addresses)\<lparr>updateInterval := Some 0\<rparr>" "sources_down 0"]
    by (auto simp: new_provider_def split: prod.splits)
  from single_timer_and_clean_stop [OF r, of sources_down "[]"] u
  have "startPriceUpdates ?r = ?r"
    and "elapse (stopPriceUpdates ?r) sources_down = (stopPriceUpdates ?r, [])"
    by blast+
  with r u v t show ?thesis by simp
qed

section \<open>The legacy oracle cascade\<close>

lemma js_Number_nonneg:
  assumes "0 \<le> i" and "i < 2 ^ 256"
  shows "js_Number i = Fin (real_of_int i)"
proof (cases "i = 0")
  case True
  then show ?thesis by (simp add: js_Number_def js_of_real_zero)
next
  case False
  with assms(1) have "1 \<le> i" by linarith
  then have one: "1 \<le> real_of_int i" by (simp only: of_int_1_le_iff)
  have "(1::real) / 2 ^ 1075 < 1" by simp
  with one have lo: "1 / 2 ^ 1075 < real_of_int i" by linarith
  from assms(2) have "real_of_int i < 2 ^ 256"
    by (metis of_int_less_iff of_int_numeral of_int_power)
  moreover have "(2::real) ^ 256 < 2 ^ 1024 - 2 ^ 970" by simp
  ultimately have hi: "real_of_int i < 2 ^ 1024 - 2 ^ 970" by linarith
  show ?thesis unfolding js_Number_def by (rule js_of_real_pos [OF lo hi])
qed

lemma js_Number_uint32: "js_Number (uint (ts :: 32 word)) = Fin (real_of_int (uint ts))"
proof -
  have "uint ts < 2 ^ 32" using uint_bounded [of ts] by simp
  then have "uint ts < 2 ^ 256" by simp
  then show ?thesis by (intro js_Number_nonneg) simp_all
qed

lemma floor_thousandth: "\<lfloor>real_of_int c / 1000\<rfloor> = c div 1000"
  using floor_divide_of_int_eq [of c 1000, where ?'a = real] by simp

lemma api3_age:
  "js_gt (js_sub (js_floor (js_div (Date_now clock) (Fin 1000))) (js_Number (uint (ts :: 32 word))))
         (Fin 3600)
   = (3600 < clock div 1000 - uint ts)"
proof -
  define x where "x = real_of_int clock / 1000"
  define n where "n = clock div 1000"
  have fl: "\<lfloor>x\<rfloor> = n" unfolding x_def n_def by (rule floor_thousandth)
  have nx: "real_of_int n \<le> x" "x < real_of_int n + 1"
    using fl by linarith+
  have "0 \<le> uint ts" by simp
  then have ts0: "0 \<le> real_of_int (uint ts)" by (simp only: of_int_0_le_iff)
  have ts1: "real_of_int (uint ts) < 2 ^ 32"
  proof -
    have "uint ts < 2 ^ 32" using uint_bounded [of ts] by simp
    then show ?thesis by (metis of_int_less_iff of_int_numeral of_int_power)
  qed
  have d: "js_div (Date_now clock) (Fin 1000) = js_of_real x"
    by (simp add: Date_now_def x_def)
  have iff: "(3600 < n - uint ts) = (3600 < real_of_int n - real_of_int (uint ts))"
    by linarith
  consider (hi) "2 ^ 1024 - 2 ^ 970 \<le> x" | (lo) "x \<le> - (2 ^ 1024 - 2 ^ 970)"
    | (mid) "\<not> 2 ^ 1024 - 2 ^ 970 \<le> x" "\<not> x \<le> - (2 ^ 1024 - 2 ^ 970)"
    by blast
  then show ?thesis
  proof cases
    case hi
    then have a: "js_of_real x = PInf" by (simp add: js_of_real_def)
    have "(2::real) ^ 32 + 3601 < 2 ^ 1024 - 2 ^ 970" by simp
    with hi nx ts1 have "3600 < real_of_int n - real_of_int (uint ts)" by linarith
    then show ?thesis
      unfolding d a js_Number_uint32 n_def [symmetric] iff by (simp add: js_gt_def)
  next
    case lo
    then have a: "js_of_real x = NInf" by (auto simp: js_of_real_def)
    have "- ((2::real) ^ 1024 - 2 ^ 970) < 0" by simp
    with lo nx ts0 have "\<not> 3600 < real_of_int n - real_of_int (uint ts)" by linarith
    then show ?thesis
      unfolding d a js_Number_uint32 n_def [symmetric] iff by (simp add: js_gt_def)
  next
    case mid
    have a: "js_floor (js_of_real x) = Fin (real_of_int n)"
    proof (cases "\<bar>x\<bar> \<le> 1 / 2 ^ 1075")
      case True
      have "(1::real) / 2 ^ 1075 < 1 / 1000" by simp
      with True have "\<bar>real_of_int clock\<bar> < 1" unfolding x_def by simp
      then have "clock = 0" by linarith
      then have "n = 0" by (simp add: n_def)
      with True mid show ?thesis by (simp add: js_of_real_def)
    next
      case False
      with mid show ?thesis by (simp add: js_of_real_def fl)
    qed
    show ?thesis
      unfolding d a js_Number_uint32 n_def [symmetric] iff js_sub.simps
      by (rule js_gt_of_real) simp_all
  qed
qed

lemma api3_fresh_only:
  assumes "getAPI3Price ticker (Returned (v, ts)) clock = Inr p"
  shows "clock div 1000 - uint ts \<le> 3600"
  using assms
  by (auto simp: getAPI3Price_def Let_def api3_age split: sum.splits if_splits)

lemma api3_too_old:
  assumes "3600 < clock div 1000 - uint ts"
  shows "getAPI3Price ticker (Returned (v, ts)) clock = Inl Data_too_old
       \<or> getAPI3Price ticker (Returned (v, ts)) clock = Inl No_dapi_id"
  using assms
  by (auto simp: getAPI3Price_def getAPI3dApiId_def Let_def api3_age split: sum.splits option.splits)

lemma pyth_ignores_time:
  "map_option price (getPythPrice ticker (Returned (p, c, e, t))) =
   map_option price (getPythPrice ticker (Returned (p, c, e, t')))"
  by (simp add: getPythPrice_def Let_def split: option.splits)

lemma redstone_ignores_time:
  "getRedstonePrice ticker (Returned (p, t)) = getRedstonePrice ticker (Returned (p, t'))"
  by (simp add: getRedstonePrice_def)

lemma pyth_level:
  "(case r of Some q \<Rightarrow> if js_gt (price q) (Fin 0) then Some (price q) else None | None \<Rightarrow> None)
   = (case map_option price r of Some x \<Rightarrow> if js_gt x (Fin 0) then Some x else None | None \<Rightarrow> None)"
  by (cases r) simp_all

lemma getYeiPrice_ignores_time:
  "getYeiPrice ticker (w\<lparr>legacy_pyth_read := Returned (p, c, e, t),
                          redstone_read := Returned (rp, rt)\<rparr>) =
   getYeiPrice ticker (w\<lparr>legacy_pyth_read := Returned (p, c, e, t'),
                          redstone_read := Returned (rp, rt')\<rparr>)"
  unfolding getYeiPrice_def Let_def pyth_level
  using pyth_ignores_time [of ticker p c e t t'] redstone_ignores_time [of ticker rp rt rt']
  by (simp cong: option.case_cong)

lemma ancient_pyth_price:
  "getPrice (new_provider example_addresses) ''BTC'' ancient_pyth =
     (Some \<lparr>symbol = ''BTC'', price = Fin 65000, timestamp = Fin 1700000000000,
            source = ''yei-legacy-oracle'', confidence = Fin 0.95\<rparr>,
      (new_provider example_addresses)\<lparr>priceCache :=
         [''BTC'' \<mapsto> \<lparr>symbol = ''BTC'', price = Fin 65000, timestamp = Fin 1700000000000,
            source = ''yei-legacy-oracle'', confidence = Fin 0.95\<rparr>]\<rparr>,
      [Call GetYeiMultiOraclePrice [], Call GetCoinGeckoPrice [],
       Call GetYeiPrice [Call GetAPI3Price [], Call GetPythPrice []]])"
  by (simp add: getPrice_def cascade_def new_provider_def example_addresses_def all_down_def
      ancient_pyth_def adapter_defs power_int_minus)

lemma getYeiPrice_levels:
  "fst (getYeiPrice ticker w) =
     (case fst (first_success (level_answer ticker w) legacy_levels) of
        Some p \<Rightarrow> Inr p
      | None \<Rightarrow> Inl All_sources_failed)
   \<and> invoked (snd (getYeiPrice ticker w)) = snd (first_success (level_answer ticker w) legacy_levels)"
  by (simp add: getYeiPrice_def legacy_levels_def Let_def split: option.splits)

lemma redstone_restricted:
  "ticker \<noteq> ''USDT'' \<Longrightarrow> ticker \<noteq> ''USDC'' \<Longrightarrow> getRedstonePrice ticker rd = Inl Feed_not_available"
  by (simp add: getRedstonePrice_def)

text \<open>
  The Pyth level accepts an observation of any age. With API3 down, the legacy read of Pyth
  returns a price published at time 0, more than fifty years before the clock of the call;
  the legacy cascade accepts it, and \<open>getPrice\<close> returns and caches it as a quote of the
  source yei-legacy-oracle, stamped with the current clock.
\<close>

theorem legacy_stale_pyth_counterexample:
  "legacy_pyth_read ancient_pyth = Returned (6500000000000, 1000000000, - 8, 0)
   \<and> legacy_now ancient_pyth = 1700000000000
   \<and> getPrice (new_provider example_addresses) ''BTC'' ancient_pyth =
     (Some \<lparr>symbol = ''BTC'', price = Fin 65000, timestamp = Fin 1700000000000,
            source = ''yei-legacy-oracle'', confidence = Fin 0.95\<rparr>,
      (new_provider example_addresses)\<lparr>priceCache :=
         [''BTC'' \<mapsto> \<lparr>symbol = ''BTC'', price = Fin 65000, timestamp = Fin 1700000000000,
            source = ''yei-legacy-oracle'', confidence = Fin 0.95\<rparr>]\<rparr>,
      [Call GetYeiMultiOraclePrice [], Call GetCoinGeckoPrice [],
       Call GetYeiPrice [Call GetAPI3Price [], Call GetPythPrice []]])"
  using ancient_pyth_price by (simp add: ancient_pyth_def all_down_def)

text \<open>
  Claim C6, as amended. The legacy adapter is invoked only for a symbol whose upper-case
  form is in the allow-list BTC, ETH, SEI, USDC, USDT; for any other symbol the step yields
  nothing and invokes nothing. Inside, it tries API3, then Pyth, then Redstone and stops at
  the first level that contributes a positive price; the levels it invokes are those up
  to that one, in this order, and when none contributes it throws. Redstone throws for
  every symbol but USDT and USDC. Only the API3 level tests the age of its observation: a
  value it returns is at most 3600 seconds older than the clock, and an older one is thrown
  away. The time stamps of the Pyth and Redstone observations have no influence on what the
  legacy cascade returns.
\<close>

theorem legacy_cascade_levels:
  "(toUpperCase ticker \<notin> set [''BTC'', ''ETH'', ''SEI'', ''USDC'', ''USDT''] \<longrightarrow>
      yeiLegacyStep ticker w = (None, []))
   \<and> invoked (snd (yeiLegacyStep ticker w)) =
       (if toUpperCase ticker \<in> set [''BTC'', ''ETH'', ''SEI'', ''USDC'', ''USDT'']
        then [GetYeiPrice] else [])
   \<and> fst (getYeiPrice ticker w) =
       (case fst (first_success (level_answer ticker w) [GetAPI3Price, GetPythPrice, GetRedstonePrice]) of
          Some p \<Rightarrow> Inr p
        | None \<Rightarrow> Inl All_sources_failed)
   \<and> invoked (snd (getYeiPrice ticker w)) =
       snd (first_success (level_answer ticker w) [GetAPI3Price, GetPythPrice, GetRedstonePrice])
   \<and> (ticker \<noteq> ''USDT'' \<and> ticker \<noteq> ''USDC'' \<longrightarrow>
        getRedstonePrice ticker rd = Inl Feed_not_available)
   \<and> (getAPI3Price ticker (Returned (v, ts)) clock = Inr x \<longrightarrow> clock div 1000 - uint ts \<le> 3600)
   \<and> (3600 < clock div 1000 - uint ts \<longrightarrow>
        getAPI3Price ticker (Returned (v, ts)) clock = Inl Data_too_old
        \<or> getAPI3Price ticker (Returned (v, ts)) clock = Inl No_dapi_id)
   \<and> getYeiPrice ticker (w\<lparr>legacy_pyth_read := Returned (p, c, e, t),
                             redstone_read := Returned (rp, rt)\<rparr>) =
       getYeiPrice ticker (w\<lparr>legacy_pyth_read := Returned (p, c, e, t'),
                             redstone_read := Returned (rp, rt')\<rparr>)"
proof -
  have a: "toUpperCase ticker \<notin> set [''BTC'', ''ETH'', ''SEI'', ''USDC'', ''USDT''] \<longrightarrow>
      yeiLegacyStep ticker w = (None, [])"
    by (simp add: yeiLegacyStep_def yeiSupportedSymbols_def)
  have b: "invoked (snd (yeiLegacyStep ticker w)) =
       (if toUpperCase ticker \<in> set [''BTC'', ''ETH'', ''SEI'', ''USDC'', ''USDT'']
        then [GetYeiPrice] else [])"
    using legacy_invoked [of ticker w] by (simp add: yeiSupportedSymbols_def)
  note c = getYeiPrice_levels [of ticker w, unfolded legacy_levels_def]
  have d: "ticker \<noteq> ''USDT'' \<and> ticker \<noteq> ''USDC'' \<longrightarrow>
        getRedstonePrice ticker rd = Inl Feed_not_available"
    by (simp add: redstone_restricted)
  have e: "getAPI3Price ticker (Returned (v, ts)) clock = Inr x \<longrightarrow> clock div 1000 - uint ts \<le> 3600"
    using api3_fresh_only by blast
  have f: "3600 < clock div 1000 - uint ts \<longrightarrow>
        getAPI3Price ticker (Returned (v, ts)) clock = Inl Data_too_old
        \<or> getAPI3Price ticker (Returned (v, ts)) clock = Inl No_dapi_id"
    using api3_too_old by blast
  have g: "getYeiPrice ticker (w\<lparr>legacy_pyth_read := Returned (p, c, e, t),
                             redstone_read := Returned (rp, rt)\<rparr>) =
       getYeiPrice ticker (w\<lparr>legacy_pyth_read := Returned (p, c, e, t'),
                             redstone_read := Returned (rp, rt')\<rparr>)"
    by (rule getYeiPrice_ignores_time)
  from a b c d e f g show ?thesis by blast
qed

theorem legacy_cascade_levels_witness:
  "toUpperCase ''DOGE'' \<notin> set [''BTC'', ''ETH'', ''SEI'', ''USDC'', ''USDT'']
   \<and> yeiLegacyStep ''DOGE'' all_down = (None, [])
   \<and> getRedstonePrice ''BTC'' Reverted = Inl Feed_not_available
   \<and> getAPI3Price ''BTC'' (Returned (65000000000000000000000, 1699999000)) 1700000000000 = Inr (Fin 65000)
   \<and> (1700000000000 :: int) div 1000 - uint (1699999000 :: 32 word) \<le> 3600
   \<and> 3600 < (1700000000000 :: int) div 1000 - uint (1699990000 :: 32 word)
   \<and> getAPI3Price ''BTC'' (Returned (65000000000000000000000, 1699990000)) 1700000000000 = Inl Data_too_old"
proof -
  have n: "toUpperCase ''DOGE'' \<notin> set [''BTC'', ''ETH'', ''SEI'', ''USDC'', ''USDT'']"
    by simp
  have b: "''BTC'' \<noteq> ''USDT'' \<and> ''BTC'' \<noteq> ''USDC''" by simp
  have f: "getAPI3Price ''BTC'' (Returned (65000000000000000000000, 1699999000)) 1700000000000 = Inr (Fin 65000)"
    by (simp add: adapter_defs)
  have o: "3600 < (1700000000000 :: int) div 1000 - uint (1699990000 :: 32 word)"
    by simp
  have d: "getAPI3Price ''BTC'' (Returned (65000000000000000000000, 1699990000)) 1700000000000 \<noteq> Inl No_dapi_id"
    by (simp add: adapter_defs)
  from legacy_cascade_levels [of "''DOGE''" all_down] n
  have 1: "yeiLegacyStep ''DOGE'' all_down = (None, [])" by blast
  from legacy_cascade_levels [of "''BTC''" all_down Reverted 65000000000000000000000 1699999000 1700000000000 "Fin 65000"] b f
  have 2: "getRedstonePrice ''BTC'' Reverted = Inl Feed_not_available"
    and 3: "(1700000000000 :: int) div 1000 - uint (1699999000 :: 32 word) \<le> 3600"
    by blast+
  from legacy_cascade_levels [of "''BTC''" all_down Reverted 65000000000000000000000 1699990000 1700000000000] o d
  have 4: "getAPI3Price ''BTC'' (Returned (65000000000000000000000, 1699990000)) 1700000000000 = Inl Data_too_old"
    by blast
  from n 1 2 f 3 o 4 show ?thesis by blast
qed

section \<open>Source faults\<close>
















section \<open>Where funding-rate entries come from\<close>

lemma js_mul_8760_NaN: "js_isNaN (js_mul raw (Fin 8760)) = js_isNaN raw"
  by (cases raw) (simp_all add: js_signed_inf_def js_of_real_def)

lemma binance_entry:
  "getBinanceFundingRate ticker resp clock = Some r \<Longrightarrow>
     \<exists>raw nxt. resp = Json (Some (raw, nxt))
       \<and> r = \<lparr>fr_symbol = ticker, rate = js_mul raw (Fin 8760), fr_timestamp = Date_now clock,
               exchange = ''Binance'', nextFundingTime = nxt\<rparr>"
  by (auto simp: getBinanceFundingRate_def split: fetched.splits option.splits)

lemma bybit_entry:
  "getBybitFundingRate ticker resp clock = Some r \<Longrightarrow>
     \<exists>raw nxt rest. resp = Json (Some ((raw, nxt) # rest))
       \<and> r = \<lparr>fr_symbol = ticker, rate = js_mul raw (Fin 8760), fr_timestamp = Date_now clock,
               exchange = ''Bybit'', nextFundingTime = nxt\<rparr>"
  by (auto simp: getBybitFundingRate_def split: fetched.splits option.splits list.splits)

lemma okx_entry:
  "getOkxFundingRate ticker resp = Some r \<Longrightarrow>
     \<exists>raw ft nxt rest. resp = Json (Some ((raw, ft, nxt) # rest))
       \<and> r = \<lparr>fr_symbol = ticker, rate = js_mul raw (Fin 8760), fr_timestamp = ft,
               exchange = ''OKX'', nextFundingTime = nxt\<rparr>"
  by (auto simp: getOkxFundingRate_def split: fetched.splits option.splits list.splits)

lemma validRates_members:
  "r \<in> set (validRates ticker w) \<Longrightarrow>
     getBinanceFundingRate ticker (binance_funding w) (binance_now w) = Some r
     \<or> getBybitFundingRate ticker (bybit_funding w) (bybit_now w) = Some r
     \<or> getOkxFundingRate ticker (okx_funding w) = Some r"
  by (auto simp: validRates_def List.map_filter_simps split: option.splits)

lemma validRates_provenance:
  assumes "r \<in> set (validRates ticker w)"
  shows "(\<exists>raw nxt. binance_funding w = Json (Some (raw, nxt))
            \<and> r = \<lparr>fr_symbol = ticker, rate = js_mul raw (Fin 8760),
                    fr_timestamp = Date_now (binance_now w), exchange = ''Binance'',
                    nextFundingTime = nxt\<rparr>)
       \<or> (\<exists>raw nxt rest. bybit_funding w = Json (Some ((raw, nxt) # rest))
            \<and> r = \<lparr>fr_symbol = ticker, rate = js_mul raw (Fin 8760),
                    fr_timestamp = Date_now (bybit_now w), exchange = ''Bybit'',
                    nextFundingTime = nxt\<rparr>)
       \<or> (\<exists>raw ft nxt rest. okx_funding w = Json (Some ((raw, ft, nxt) # rest))
            \<and> r = \<lparr>fr_symbol = ticker, rate = js_mul raw (Fin 8760),
                    fr_timestamp = ft, exchange = ''OKX'', nextFundingTime = nxt\<rparr>)"
  using validRates_members [OF assms]
    binance_entry [of ticker "binance_funding w" "binance_now w" r]
    bybit_entry [of ticker "bybit_funding w" "bybit_now w" r]
    okx_entry [of ticker "okx_funding w" r]
  by blast

text \<open>
  An entry with NaN fields is returned. Binance answers with status ok and the body
  \<^verbatim>\<open>{}\<close>; \<^verbatim>\<open>parseFloat(undefined)\<close> and \<^verbatim>\<open>parseInt(undefined)\<close> are NaN, the adapter
  builds an entry from them, the filter \<^verbatim>\<open>r !== null\<close> keeps it, and \<open>getFundingRates\<close>
  caches and returns it.
\<close>

theorem missing_field_counterexample:
  "getFundingRates (new_provider example_addresses) ''BTC'' binance_fields_missing =
     ([\<lparr>fr_symbol = ''BTC'', rate = NaN, fr_timestamp = Fin 1700000000000,
        exchange = ''Binance'', nextFundingTime = NaN\<rparr>],
      (new_provider example_addresses)\<lparr>fundingRateCache :=
        [''BTC'' \<mapsto>
          [\<lparr>fr_symbol = ''BTC'', rate = NaN, fr_timestamp = Fin 1700000000000,
            exchange = ''Binance'', nextFundingTime = NaN\<rparr>]]\<rparr>,
      [Call GetBinanceFundingRate [], Call GetBybitFundingRate [], Call GetOkxFundingRate []])"
  by (simp add: getFundingRates_def new_provider_def binance_fields_missing_def
      funding_all_down_def getBinanceFundingRate_def getBybitFundingRate_def
      getOkxFundingRate_def List.map_filter_simps Date_now_def Let_def)

text \<open>
  Claim C7, as amended. Every entry of a list that \<open>getFundingRates\<close> fetches (does not
  serve from the cache) comes from an exchange whose request delivered a JSON body with the
  object the adapter reads, and is built from that body: the rate is the parsed funding
  rate times 8760 and the next funding time is the parsed field. An exchange whose request
  threw, answered with a status that is not ok, or delivered a body that cannot be parsed or
  lacks that object contributes no entry. The parsed numbers are not checked: the rate of an
  entry is NaN exactly when the parsed funding rate is NaN.
\<close>

theorem funding_entries_provenance:
  "(funding_cache_miss s ticker w \<longrightarrow>
     (\<forall>r \<in> set (fst (getFundingRates s ticker w)).
        (\<exists>raw nxt. binance_funding w = Json (Some (raw, nxt))
            \<and> r = \<lparr>fr_symbol = ticker, rate = js_mul raw (Fin 8760),
                    fr_timestamp = Date_now (binance_now w), exchange = ''Binance'',
                    nextFundingTime = nxt\<rparr>)
        \<or> (\<exists>raw nxt rest. bybit_funding w = Json (Some ((raw, nxt) # rest))
            \<and> r = \<lparr>fr_symbol = ticker, rate = js_mul raw (Fin 8760),
                    fr_timestamp = Date_now (bybit_now w), exchange = ''Bybit'',
                    nextFundingTime = nxt\<rparr>)
        \<or> (\<exists>raw ft nxt rest. okx_funding w = Json (Some ((raw, ft, nxt) # rest))
            \<and> r = \<lparr>fr_symbol = ticker, rate = js_mul raw (Fin 8760),
                    fr_timestamp = ft, exchange = ''OKX'', nextFundingTime = nxt\<rparr>)))
   \<and> (funding_cache_miss s ticker w \<and> failed_fetch (binance_funding w) \<longrightarrow>
        (\<forall>r \<in> set (fst (getFundingRates s ticker w)). exchange r \<noteq> ''Binance''))
   \<and> (funding_cache_miss s ticker w \<and> failed_list_fetch (bybit_funding w) \<longrightarrow>
        (\<forall>r \<in> set (fst (getFundingRates s ticker w)). exchange r \<noteq> ''Bybit''))
   \<and> (funding_cache_miss s ticker w \<and> failed_list_fetch (okx_funding w) \<longrightarrow>
        (\<forall>r \<in> set (fst (getFundingRates s ticker w)). exchange r \<noteq> ''OKX''))
   \<and> js_isNaN (js_mul raw0 (Fin 8760)) = js_isNaN raw0"
proof -
  have r: "fst (getFundingRates s ticker w) = validRates ticker w" if "funding_cache_miss s ticker w"
    using that by (simp add: getFundingRates_miss)
  have a: "\<forall>r \<in> set (validRates ticker w).
        (\<exists>raw nxt. binance_funding w = Json (Some (raw, nxt))
            \<and> r = \<lparr>fr_symbol = ticker, rate = js_mul raw (Fin 8760),
                    fr_timestamp = Date_now (binance_now w), exchange = ''Binance'',
                    nextFundingTime = nxt\<rparr>)
        \<or> (\<exists>raw nxt rest. bybit_funding w = Json (Some ((raw, nxt) # rest))
            \<and> r = \<lparr>fr_symbol = ticker, rate = js_mul raw (Fin 8760),
                    fr_timestamp = Date_now (bybit_now w), exchange = ''Bybit'',
                    nextFundingTime = nxt\<rparr>)
        \<or> (\<exists>raw ft nxt rest. okx_funding w = Json (Some ((raw, ft, nxt) # rest))
            \<and> r = \<lparr>fr_symbol = ticker, rate = js_mul raw (Fin 8760),
                    fr_timestamp = ft, exchange = ''OKX'', nextFundingTime = nxt\<rparr>)"
    by (intro ballI) (rule validRates_provenance)
  have b: "\<forall>r \<in> set (validRates ticker w). exchange r \<noteq> ''Binance''"
    if "failed_fetch (binance_funding w)"
  proof
    fix r assume "r \<in> set (validRates ticker w)"
    from validRates_provenance [OF this] that show "exchange r \<noteq> ''Binance''"
      by (auto simp: failed_fetch_def)
  qed
  have c: "\<forall>r \<in> set (validRates ticker w). exchange r \<noteq> ''Bybit''"
    if "failed_list_fetch (bybit_funding w)"
  proof
    fix r assume "r \<in> set (validRates ticker w)"
    from validRates_provenance [OF this] that show "exchange r \<noteq> ''Bybit''"
      by (auto simp: failed_list_fetch_def)
  qed
  have d: "\<forall>r \<in> set (validRates ticker w). exchange r \<noteq> ''OKX''"
    if "failed_list_fetch (okx_funding w)"
  proof
    fix r assume "r \<in> set (validRates ticker w)"
    from validRates_provenance [OF this] that show "exchange r \<noteq> ''OKX''"
      by (auto simp: failed_list_fetch_def)
  qed
  have c1: "funding_cache_miss s ticker w \<longrightarrow>
     (\<forall>r \<in> set (fst (getFundingRates s ticker w)).
        (\<exists>raw nxt. binance_funding w = Json (Some (raw, nxt))
            \<and> r = \<lparr>fr_symbol = ticker, rate = js_mul raw (Fin 8760),
                    fr_timestamp = Date_now (binance_now w), exchange = ''Binance'',
                    nextFundingTime = nxt\<rparr>)
        \<or> (\<exists>raw nxt rest. bybit_funding w = Json (Some ((raw, nxt) # rest))
            \<and> r = \<lparr>fr_symbol = ticker, rate = js_mul raw (Fin 8760),
                    fr_timestamp = Date_now (bybit_now w), exchange = ''Bybit'',
                    nextFundingTime = nxt\<rparr>)
        \<or> (\<exists>raw ft nxt rest. okx_funding w = Json (Some ((raw, ft, nxt) # rest))
            \<and> r = \<lparr>fr_symbol = ticker, rate = js_mul raw (Fin 8760),
                    fr_timestamp = ft, exchange = ''OKX'', nextFundingTime = nxt\<rparr>))"
  proof
    assume m: "funding_cache_miss s ticker w"
    show "\<forall>r \<in> set (fst (getFundingRates s ticker w)).
        (\<exists>raw nxt. binance_funding w = Json (Some (raw, nxt))
            \<and> r = \<lparr>fr_symbol = ticker, rate = js_mul raw (Fin 8760),
                    fr_timestamp = Date_now (binance_now w), exchange = ''Binance'',
                    nextFundingTime = nxt\<rparr>)
        \<or> (\<exists>raw nxt rest. bybit_funding w = Json (Some ((raw, nxt) # rest))
            \<and> r = \<lparr>fr_symbol = ticker, rate = js_mul raw (Fin 8760),
                    fr_timestamp = Date_now (bybit_now w), exchange = ''Bybit'',
                    nextFundingTime = nxt\<rparr>)
        \<or> (\<exists>raw ft nxt rest. okx_funding w = Json (Some ((raw, ft, nxt) # rest))
            \<and> r = \<lparr>fr_symbol = ticker, rate = js_mul raw (Fin 8760),
                    fr_timestamp = ft, exchange = ''OKX'', nextFundingTime = nxt\<rparr>)"
      unfolding r [OF m] by (rule a)
  qed
  have c2: "funding_cache_miss s ticker w \<and> failed_fetch (binance_funding w) \<longrightarrow>
        (\<forall>r \<in> set (fst (getFundingRates s ticker w)). exchange r \<noteq> ''Binance'')"
    using r b by simp
  have c3: "funding_cache_miss s ticker w \<and> failed_list_fetch (bybit_funding w) \<longrightarrow>
        (\<forall>r \<in> set (fst (getFundingRates s ticker w)). exchange r \<noteq> ''Bybit'')"
    using r c by simp
  have c4: "funding_cache_miss s ticker w \<and> failed_list_fetch (okx_funding w) \<longrightarrow>
        (\<forall>r \<in> set (fst (getFundingRates s ticker w)). exchange r \<noteq> ''OKX'')"
    using r d by simp
  show ?thesis by (intro conjI c1 c2 c3 c4 js_mul_8760_NaN)
qed

theorem funding_entries_provenance_witness:
  "funding_cache_miss (new_provider example_addresses) ''BTC'' bybit_down
   \<and> failed_list_fetch (bybit_funding bybit_down)
   \<and> ''Bybit'' \<notin> exchange ` set (fst (getFundingRates (new_provider example_addresses) ''BTC'' bybit_down))
   \<and> map exchange (fst (getFundingRates (new_provider example_addresses) ''BTC'' bybit_down)) =
       [''Binance'', ''OKX'']"
proof -
  let ?s = "new_provider example_addresses"
  have m: "funding_cache_miss ?s ''BTC'' bybit_down"
    by (simp add: funding_cache_miss_def new_provider_def)
  have f: "failed_list_fetch (bybit_funding bybit_down)"
    by (simp add: failed_list_fetch_def bybit_down_def funding_all_down_def)
  from funding_entries_provenance [of ?s "''BTC''" bybit_down] m f
  have "\<forall>r \<in> set (fst (getFundingRates ?s ''BTC'' bybit_down)). exchange r \<noteq> ''Bybit''"
    by blast
  then have n: "''Bybit'' \<notin> exchange ` set (fst (getFundingRates ?s ''BTC'' bybit_down))"
    by auto
  have "fst (getFundingRates ?s ''BTC'' bybit_down) = validRates ''BTC'' bybit_down"
    by (simp add: getFundingRates_miss [OF m])
  moreover have "map exchange (validRates ''BTC'' bybit_down) = [''Binance'', ''OKX'']"
    by (simp add: funding_defs bybit_down_def funding_all_down_def)
  ultimately have e: "map exchange (fst (getFundingRates ?s ''BTC'' bybit_down)) = [''Binance'', ''OKX'']"
    by simp
  from m f n e show ?thesis by blast
qed

end
